theory Spec2Isabelle
  imports Complex_Main "HOL-Library.AList"
begin

section \<open>Python strings\<close>

text \<open>
  A Python \<open>str\<close> is modelled as a \<open>string\<close>. The characters of the source outside
  ASCII are written as their UTF-8 bytes; the program never counts the characters of such
  a string, it only joins, searches and replaces.
\<close>

definition sq :: string where
  "sq = [CHR 0x27]"

definition middot :: string where
  "middot = [CHR 0xC2, CHR 0xB7]"

definition emdash :: string where
  "emdash = [CHR 0xE2, CHR 0x80, CHR 0x94]"

definition bullet :: string where
  "bullet = [CHR 0xE2, CHR 0x80, CHR 0xA2]"

definition rarrow :: string where
  "rarrow = [CHR 0xE2, CHR 0x86, CHR 0x92]"

definition check_mark :: string where
  "check_mark = [CHR 0xE2, CHR 0x9C, CHR 0x85]"

definition cross_mark :: string where
  "cross_mark = [CHR 0xE2, CHR 0x9D, CHR 0x8C]"

definition party :: string where
  "party = [CHR 0xF0, CHR 0x9F, CHR 0x8E, CHR 0x89]"

text \<open>\<open>s.startswith(p)\<close>\<close>

fun startswith :: "string \<Rightarrow> string \<Rightarrow> bool" where
  "startswith s [] = True"
| "startswith [] (p # ps) = False"
| "startswith (c # cs) (p # ps) = (c = p \<and> startswith cs ps)"

text \<open>\<open>sub in s\<close>\<close>

fun py_in :: "string \<Rightarrow> string \<Rightarrow> bool" where
  "py_in sub [] = (sub = [])"
| "py_in sub (c # cs) = (startswith (c # cs) sub \<or> py_in sub cs)"

text \<open>
  \<open>s.replace(old, new)\<close>: every occurrence of \<open>old\<close>, found from the left and not
  overlapping, becomes \<open>new\<close>. The third argument of \<open>replace_scan\<close> is what is left to skip
  of an occurrence that has just been replaced.
\<close>

fun replace_scan :: "string \<Rightarrow> string \<Rightarrow> string \<Rightarrow> string \<Rightarrow> string" where
  "replace_scan old new skip [] = []"
| "replace_scan old new (k # ks) (c # cs) = replace_scan old new ks cs"
| "replace_scan old new [] (c # cs) =
     (if startswith (c # cs) old then new @ replace_scan old new (tl old) cs
      else c # replace_scan old new [] cs)"

definition py_replace :: "string \<Rightarrow> string \<Rightarrow> string \<Rightarrow> string" where
  "py_replace old new s =
     (if old = [] then new @ concat (map (\<lambda>c. c # new) s)
      else replace_scan old new [] s)"

text \<open>
  \<open>s.split(sep)\<close> for a separator that is not empty: the pieces between the occurrences of
  \<open>sep\<close>. \<open>cur\<close> holds the piece being read, reversed.
\<close>

fun split_scan :: "string \<Rightarrow> string \<Rightarrow> string \<Rightarrow> string \<Rightarrow> string list" where
  "split_scan sep skip cur [] = [rev cur]"
| "split_scan sep (k # ks) cur (c # cs) = split_scan sep ks cur cs"
| "split_scan sep [] cur (c # cs) =
     (if startswith (c # cs) sep then rev cur # split_scan sep (tl sep) [] cs
      else split_scan sep [] (c # cur) cs)"

definition py_split :: "string \<Rightarrow> string \<Rightarrow> string list" where
  "py_split sep s = split_scan sep [] [] s"

text \<open>
  \<open>s.strip()\<close>. The white space of ASCII is what \<open>str.isspace\<close> accepts below 128; the
  white space of Unicode beyond it is not modelled.
\<close>

definition is_space :: "char \<Rightarrow> bool" where
  "is_space c = (c \<in> set [CHR 0x09, CHR 0x0A, CHR 0x0B, CHR 0x0C, CHR 0x0D,
                            CHR 0x1C, CHR 0x1D, CHR 0x1E, CHR 0x1F, CHR 0x20])"

definition py_strip :: "string \<Rightarrow> string" where
  "py_strip s = rev (dropWhile is_space (rev (dropWhile is_space s)))"

text \<open>\<open>str(n)\<close> for an integer, and the format \<open>{n:02d}\<close>.\<close>

function str_nat :: "nat \<Rightarrow> string" where
  "str_nat n =
     (if n < 10 then [''0123456789'' ! n]
      else str_nat (n div 10) @ [''0123456789'' ! (n mod 10)])"
  by pat_completeness auto
termination
  by (relation "measure (\<lambda>n. n)") auto

declare str_nat.simps [simp del]

definition str_int :: "int \<Rightarrow> string" where
  "str_int i = (if i < 0 then ''-'' @ str_nat (nat (- i)) else str_nat (nat i))"

definition fmt_02d :: "int \<Rightarrow> string" where
  "fmt_02d i = (if 0 \<le> i \<and> i < 10 then ''0'' @ str_int i else str_int i)"

section \<open>Exceptions\<close>

text \<open>
  The exceptions the file operations and the checks can raise. The errors of the operating
  system carry the path; \<open>str_exn\<close> is \<open>str(e)\<close>, with the texts of Linux.
\<close>

datatype exn =
    FileNotFoundError string
  | NotADirectoryError string
  | IsADirectoryError string
  | FileExistsError string
  | OSError string
  | ValueError string
  | TypeError string
  | AttributeError string
  | IndexError string

fun str_exn :: "exn \<Rightarrow> string" where
  "str_exn (FileNotFoundError p) = ''[Errno 2] No such file or directory: '' @ sq @ p @ sq"
| "str_exn (NotADirectoryError p) = ''[Errno 20] Not a directory: '' @ sq @ p @ sq"
| "str_exn (IsADirectoryError p) = ''[Errno 21] Is a directory: '' @ sq @ p @ sq"
| "str_exn (FileExistsError p) = ''[Errno 17] File exists: '' @ sq @ p @ sq"
| "str_exn (OSError m) = m"
| "str_exn (ValueError m) = m"
| "str_exn (TypeError m) = m"
| "str_exn (AttributeError m) = m"
| "str_exn (IndexError m) = m"

text \<open>Sequencing of operations that may raise: the first exception ends the sequence.\<close>

definition and_then :: "exn + 'a \<Rightarrow> ('a \<Rightarrow> exn + 'b) \<Rightarrow> exn + 'b" where
  "and_then m f = (case m of Inl e \<Rightarrow> Inl e | Inr x \<Rightarrow> f x)"

section \<open>Values, tables and files\<close>

text \<open>
  What \<open>json.load\<close> and \<open>yaml.safe_load\<close> return: \<open>None\<close>, a boolean, an integer, a
  string, a list or a dictionary with string keys, in the order of insertion. Numbers with
  a fraction or an exponent are not modelled.
\<close>

datatype pyval =
    PNone
  | PBool bool
  | PInt int
  | PStr string
  | PList "pyval list"
  | PDict "(string \<times> pyval) list"

fun type_name :: "pyval \<Rightarrow> string" where
  "type_name PNone = ''NoneType''"
| "type_name (PBool b) = ''bool''"
| "type_name (PInt n) = ''int''"
| "type_name (PStr s) = ''str''"
| "type_name (PList l) = ''list''"
| "type_name (PDict d) = ''dict''"

text \<open>\<open>d.get(key, default)\<close>; only a dictionary has the method.\<close>

fun py_get :: "pyval \<Rightarrow> string \<Rightarrow> pyval \<Rightarrow> exn + pyval" where
  "py_get (PDict d) k dflt = Inr (case map_of d k of None \<Rightarrow> dflt | Some v \<Rightarrow> v)"
| "py_get v k dflt =
     Inl (AttributeError (sq @ type_name v @ sq @ '' object has no attribute '' @ sq @ ''get'' @ sq))"

text \<open>\<open>d[key] = v\<close> for a string key: a dictionary keeps the position of a key it has.\<close>

fun py_setitem :: "pyval \<Rightarrow> string \<Rightarrow> pyval \<Rightarrow> exn + pyval" where
  "py_setitem (PDict d) k v = Inr (PDict (AList.update k v d))"
| "py_setitem (PList l) k v = Inl (TypeError ''list indices must be integers or slices, not str'')"
| "py_setitem w k v =
     Inl (TypeError (sq @ type_name w @ sq @ '' object does not support item assignment''))"

text \<open>\<open>v <= n\<close> for an integer \<open>n\<close>: booleans compare as 1 and 0, anything else raises.\<close>

fun py_le_int :: "pyval \<Rightarrow> int \<Rightarrow> exn + bool" where
  "py_le_int (PInt m) n = Inr (m \<le> n)"
| "py_le_int (PBool b) n = Inr ((if b then 1 else 0) \<le> n)"
| "py_le_int v n =
     Inl (TypeError (sq @ ''<='' @ sq @ '' not supported between instances of '' @
                     sq @ type_name v @ sq @ '' and '' @ sq @ ''int'' @ sq))"

text \<open>Truth value of an object, as \<open>not v\<close> tests it.\<close>

fun py_truthy :: "pyval \<Rightarrow> bool" where
  "py_truthy PNone = False"
| "py_truthy (PBool b) = b"
| "py_truthy (PInt n) = (n \<noteq> 0)"
| "py_truthy (PStr s) = (s \<noteq> [])"
| "py_truthy (PList l) = (l \<noteq> [])"
| "py_truthy (PDict d) = (d \<noteq> [])"

text \<open>
  \<open>str(v)\<close> inside an f-string, for the values the checks print. The text of a list or a
  dictionary is not modelled: the checks raise before they would print one.
\<close>

fun py_str :: "pyval \<Rightarrow> string" where
  "py_str PNone = ''None''"
| "py_str (PBool b) = (if b then ''True'' else ''False'')"
| "py_str (PInt n) = str_int n"
| "py_str (PStr s) = s"

text \<open>
  A pandas table as \<open>read_csv\<close> returns it: the columns in order, each a name and its cells.
  A cell is missing (\<open>NaN\<close>), a number or a string. Floating-point numbers are modelled as
  exact rationals; no verdict depends on the value of a number in a table.
\<close>

datatype cell = NaN | Num rat | Str string

type_synonym frame = "(string \<times> cell list) list"

text \<open>\<open>df.isna().any().any()\<close>\<close>

definition isna_any :: "frame \<Rightarrow> bool" where
  "isna_any df = list_ex (\<lambda>col. list_ex (\<lambda>c. c = NaN) (snd col)) df"

text \<open>
  \<open>dtype.kind in "biufc"\<close>: a column that \<open>read_csv\<close> has read holds numbers unless one of
  its cells is a string. (A column of booleans or one without rows has no missing cell to
  fill, so both branches of the repair leave it as it is.)
\<close>

fun is_Str :: "cell \<Rightarrow> bool" where
  "is_Str (Str s) = True"
| "is_Str c = False"

definition numeric_kind :: "cell list \<Rightarrow> bool" where
  "numeric_kind cells = (\<not> list_ex is_Str cells)"

text \<open>\<open>col.mean()\<close> skips the missing cells and is \<open>NaN\<close> when no number is left.\<close>

fun num_values :: "cell list \<Rightarrow> rat list" where
  "num_values [] = []"
| "num_values (Num x # cs) = x # num_values cs"
| "num_values (c # cs) = num_values cs"

definition mean :: "cell list \<Rightarrow> cell" where
  "mean cells =
     (let xs = num_values cells
      in if xs = [] then NaN else Num (sum_list xs / of_nat (length xs)))"

text \<open>\<open>col.fillna(v)\<close>, \<open>col.fillna(method="ffill")\<close> and \<open>col.fillna(method="bfill")\<close>
  (pandas 2, where the \<open>method\<close> argument is still accepted).\<close>

definition fillna :: "cell \<Rightarrow> cell list \<Rightarrow> cell list" where
  "fillna v cells = map (\<lambda>c. if c = NaN then v else c) cells"

fun ffill_from :: "cell \<Rightarrow> cell list \<Rightarrow> cell list" where
  "ffill_from prev [] = []"
| "ffill_from prev (c # cs) =
     (if c = NaN then prev # ffill_from prev cs else c # ffill_from c cs)"

definition ffill :: "cell list \<Rightarrow> cell list" where
  "ffill cells = ffill_from NaN cells"

definition bfill :: "cell list \<Rightarrow> cell list" where
  "bfill cells = rev (ffill (rev cells))"

definition columns :: "frame \<Rightarrow> string list" where
  "columns df = map fst df"

definition nrows :: "frame \<Rightarrow> nat" where
  "nrows df = (case df of [] \<Rightarrow> 0 | col # _ \<Rightarrow> length (snd col))"

text \<open>
  The working area. Each scenario has a directory of its own under \<open>/tmp/ci_ct_cd_sim\<close>;
  the path of such a directory names nothing, a directory, or something that is not a
  directory. An entry of a directory is a file or a folder.

  A file is kept as what its reader makes of it: the text that \<open>open(...).read()\<close> returns,
  or the document that \<open>json.load\<close>, \<open>yaml.safe_load\<close> or \<open>pd.read_csv\<close> returns. Writing
  a document with \<open>json.dumps\<close>, \<open>yaml.safe_dump\<close> or \<open>to_csv\<close> and reading it back is taken
  to return the document. The model keeps one reading per file: a file of one kind given
  to the reader of another kind is outside the model, and the readers below answer it with
  a \<open>ValueError\<close> so that they stay total. The program reads every file name with one
  reader only.
\<close>

datatype content = Text string | Json pyval | Yaml pyval | Csv frame

datatype entry = File content | Folder

datatype node = Absent | NonDir | Dir "string \<rightharpoonup> entry"

type_synonym fsys = "string \<Rightarrow> node"

text \<open>\<open>os.path.join(base_dir, name)\<close>\<close>

definition path_join :: "string \<Rightarrow> string \<Rightarrow> string" where
  "path_join base_dir name = base_dir @ ''/'' @ name"

text \<open>\<open>os.path.exists(base_dir)\<close>\<close>

definition path_exists :: "fsys \<Rightarrow> string \<Rightarrow> bool" where
  "path_exists fs base_dir = (case fs base_dir of Absent \<Rightarrow> False | _ \<Rightarrow> True)"

text \<open>\<open>shutil.rmtree(base_dir)\<close>\<close>

definition rmtree :: "fsys \<Rightarrow> string \<Rightarrow> exn + fsys" where
  "rmtree fs base_dir =
     (case fs base_dir of
        Absent \<Rightarrow> Inl (FileNotFoundError base_dir)
      | NonDir \<Rightarrow> Inl (NotADirectoryError base_dir)
      | Dir d \<Rightarrow> Inr (fs(base_dir := Absent)))"

text \<open>\<open>os.makedirs(base_dir, exist_ok=True)\<close>\<close>

definition makedirs :: "fsys \<Rightarrow> string \<Rightarrow> exn + fsys" where
  "makedirs fs base_dir =
     (case fs base_dir of
        Absent \<Rightarrow> Inr (fs(base_dir := Dir Map.empty))
      | NonDir \<Rightarrow> Inl (FileExistsError base_dir)
      | Dir d \<Rightarrow> Inr fs)"

text \<open>Opening \<open>os.path.join(base_dir, name)\<close> for reading.\<close>

definition open_read :: "fsys \<Rightarrow> string \<Rightarrow> string \<Rightarrow> exn + content" where
  "open_read fs base_dir name =
     (case fs base_dir of
        Absent \<Rightarrow> Inl (FileNotFoundError (path_join base_dir name))
      | NonDir \<Rightarrow> Inl (NotADirectoryError (path_join base_dir name))
      | Dir d \<Rightarrow>
          (case d name of
             None \<Rightarrow> Inl (FileNotFoundError (path_join base_dir name))
           | Some Folder \<Rightarrow> Inl (IsADirectoryError (path_join base_dir name))
           | Some (File c) \<Rightarrow> Inr c))"

text \<open>\<open>open(path, encoding="utf-8").read()\<close>\<close>

definition read_text :: "fsys \<Rightarrow> string \<Rightarrow> string \<Rightarrow> exn + string" where
  "read_text fs base_dir name =
     and_then (open_read fs base_dir name)
       (\<lambda>c. case c of Text t \<Rightarrow> Inr t | _ \<Rightarrow> Inl (ValueError ''not a text file''))"

text \<open>\<open>json.load(open(path))\<close>\<close>

definition json_load :: "fsys \<Rightarrow> string \<Rightarrow> string \<Rightarrow> exn + pyval" where
  "json_load fs base_dir name =
     and_then (open_read fs base_dir name)
       (\<lambda>c. case c of Json v \<Rightarrow> Inr v | _ \<Rightarrow> Inl (ValueError ''not a JSON document''))"

text \<open>\<open>yaml.safe_load(open(path))\<close>\<close>

definition yaml_safe_load :: "fsys \<Rightarrow> string \<Rightarrow> string \<Rightarrow> exn + pyval" where
  "yaml_safe_load fs base_dir name =
     and_then (open_read fs base_dir name)
       (\<lambda>c. case c of Yaml v \<Rightarrow> Inr v | _ \<Rightarrow> Inl (ValueError ''not a YAML document''))"

text \<open>\<open>pd.read_csv(path)\<close>; a file without a header line has no columns to parse.\<close>

definition read_csv :: "fsys \<Rightarrow> string \<Rightarrow> string \<Rightarrow> exn + frame" where
  "read_csv fs base_dir name =
     and_then (open_read fs base_dir name)
       (\<lambda>c. case c of
               Csv df \<Rightarrow>
                 (if df = [] then Inl (ValueError ''No columns to parse from file'') else Inr df)
             | _ \<Rightarrow> Inl (ValueError ''not a CSV table''))"

text \<open>Opening \<open>os.path.join(base_dir, name)\<close> with mode \<open>"w"\<close> and writing the content.\<close>

definition open_write :: "fsys \<Rightarrow> string \<Rightarrow> string \<Rightarrow> content \<Rightarrow> exn + fsys" where
  "open_write fs base_dir name c =
     (case fs base_dir of
        Absent \<Rightarrow> Inl (FileNotFoundError (path_join base_dir name))
      | NonDir \<Rightarrow> Inl (NotADirectoryError (path_join base_dir name))
      | Dir d \<Rightarrow>
          (case d name of
             Some Folder \<Rightarrow> Inl (IsADirectoryError (path_join base_dir name))
           | _ \<Rightarrow> Inr (fs(base_dir := Dir (d(name \<mapsto> File c))))))"

text \<open>
  Opening with mode \<open>"a"\<close> and writing text: the text goes after what the file holds, and a
  file that is not there is created.
\<close>

definition open_append :: "fsys \<Rightarrow> string \<Rightarrow> string \<Rightarrow> string \<Rightarrow> exn + fsys" where
  "open_append fs base_dir name t =
     (case fs base_dir of
        Absent \<Rightarrow> Inl (FileNotFoundError (path_join base_dir name))
      | NonDir \<Rightarrow> Inl (NotADirectoryError (path_join base_dir name))
      | Dir d \<Rightarrow>
          (case d name of
             None \<Rightarrow> Inr (fs(base_dir := Dir (d(name \<mapsto> File (Text t)))))
           | Some Folder \<Rightarrow> Inl (IsADirectoryError (path_join base_dir name))
           | Some (File (Text old)) \<Rightarrow> Inr (fs(base_dir := Dir (d(name \<mapsto> File (Text (old @ t))))))
           | Some (File _) \<Rightarrow> Inl (ValueError ''not a text file'')))"

text \<open>
  \<open>df.to_csv(path, index=False)\<close>: pandas refuses a directory that does not exist before
  it opens the file.
\<close>

definition to_csv :: "fsys \<Rightarrow> string \<Rightarrow> string \<Rightarrow> frame \<Rightarrow> exn + fsys" where
  "to_csv fs base_dir name df =
     (case fs base_dir of
        Absent \<Rightarrow>
          Inl (OSError (''Cannot save file into a non-existent directory: '' @ sq @ base_dir @ sq))
      | _ \<Rightarrow> open_write fs base_dir name (Csv df))"

section \<open>The scenario catalogue\<close>

datatype defect =
    missing_dependency
  | dockerfile_syntax
  | env_missing
  | null_values
  | high_latency
  | public_bucket
  | memory_leak
  | schema_drift

record fmea_record =
  mode :: string
  effect :: string
  cause :: string
  detection :: string
  mitigation_hint :: string
  mitigation_fix :: string

record scenario =
  s_type :: defect
  failure_step :: int
  fmea :: fmea_record

text \<open>
  The keys of \<open>SCENARIOS\<close>. The radio button offers exactly these eight, so a key is a value
  of an enumeration; \<open>key_text\<close> is the string the source uses.
\<close>

datatype demo = Demo1 | Demo2 | Demo3 | Demo4 | Demo5 | Demo6 | Demo7 | Demo8

fun key_text :: "demo \<Rightarrow> string" where
  "key_text Demo1 = ''Demo 1 '' @ middot @ '' Linear Regression (dep missing)''"
| "key_text Demo2 = ''Demo 2 '' @ middot @ '' Image Classifier (Dockerfile syntax)''"
| "key_text Demo3 = ''Demo 3 '' @ middot @ '' NLP Sentiment (env credentials missing)''"
| "key_text Demo4 = ''Demo 4 '' @ middot @ '' Fraud Detection (nulls in data)''"
| "key_text Demo5 = ''Demo 5 '' @ middot @ '' Recommender (high latency in profile)''"
| "key_text Demo6 = ''Demo 6 '' @ middot @ '' Forecasting (public bucket policy)''"
| "key_text Demo7 = ''Demo 7 '' @ middot @ '' Speech-to-Text (memory leak)''"
| "key_text Demo8 = ''Demo 8 '' @ middot @ '' Anomaly Detection (schema drift)''"

fun SCENARIOS :: "demo \<Rightarrow> scenario" where
  "SCENARIOS Demo1 = \<lparr>
     s_type = missing_dependency,
     failure_step = 3,
     fmea = \<lparr>
       mode = ''ImportError: numpy not installed'',
       effect = ''Build cannot run unit tests; pipeline blocked'',
       cause = ''requirements.txt lacks numpy though code imports it'',
       detection = ''Dependency audit at step 3'',
       mitigation_hint = ''Add `numpy` to requirements.txt'',
       mitigation_fix = ''Appended `numpy` to requirements.txt and reinstalled deps'' \<rparr> \<rparr>"
| "SCENARIOS Demo2 = \<lparr>
     s_type = dockerfile_syntax,
     failure_step = 6,
     fmea = \<lparr>
       mode = ''Dockerfile invalid: `COPY.` missing space'',
       effect = ''Image can't be built'',
       cause = ''Syntax error in Dockerfile'',
       detection = ''Docker build at step 6'',
       mitigation_hint = ''Replace `COPY.` with `COPY . /app`'',
       mitigation_fix = ''Fixed Dockerfile COPY directive'' \<rparr> \<rparr>"
| "SCENARIOS Demo3 = \<lparr>
     s_type = env_missing,
     failure_step = 10,
     fmea = \<lparr>
       mode = ''Missing DB_USER/DB_PASS/DB_HOST in .env'',
       effect = ''Test environment provision fails'',
       cause = ''Incomplete secrets/config'',
       detection = ''Provision step 10'',
       mitigation_hint = ''Populate required keys in .env'',
       mitigation_fix = ''Wrote DB_USER/DB_PASS/DB_HOST to .env (placeholder values)'' \<rparr> \<rparr>"
| "SCENARIOS Demo4 = \<lparr>
     s_type = null_values,
     failure_step = 12,
     fmea = \<lparr>
       mode = ''Smoke test fails due to NaNs'',
       effect = ''API /predict crashes with null input'',
       cause = ''Dataset contains missing values'',
       detection = ''Smoke tests step 12'',
       mitigation_hint = ''Impute/drop NaNs in CSV'',
       mitigation_fix = ''Filled NaNs with column means'' \<rparr> \<rparr>"
| "SCENARIOS Demo5 = \<lparr>
     s_type = high_latency,
     failure_step = 15,
     fmea = \<lparr>
       mode = ''p90 latency > SLO'',
       effect = ''Pre-prod gate blocks release'',
       cause = ''Inefficient queries / insufficient resources'',
       detection = ''Load tests step 15'',
       mitigation_hint = ''Tune or scale; set p90 <= 1000ms'',
       mitigation_fix = ''Reduced p90 to 400ms in profile (proxy for tuning)'' \<rparr> \<rparr>"
| "SCENARIOS Demo6 = \<lparr>
     s_type = public_bucket,
     failure_step = 17,
     fmea = \<lparr>
       mode = ''S3/Bucket allows public write'',
       effect = ''Security approval rejects'',
       cause = ''Over-permissive ACL'',
       detection = ''Approval gate step 17'',
       mitigation_hint = ''Block public access'',
       mitigation_fix = ''Set BlockPublicAcls=True / removed public write'' \<rparr> \<rparr>"
| "SCENARIOS Demo7 = \<lparr>
     s_type = memory_leak,
     failure_step = 19,
     fmea = \<lparr>
       mode = ''Growing list in inference loop'',
       effect = ''Pod OOM post-deploy'',
       cause = ''Objects retained across calls'',
       detection = ''Monitoring step 19'',
       mitigation_hint = ''Free buffers; avoid global accumulation'',
       mitigation_fix = ''Disabled leak flag; cleared buffers'' \<rparr> \<rparr>"
| "SCENARIOS Demo8 = \<lparr>
     s_type = schema_drift,
     failure_step = 20,
     fmea = \<lparr>
       mode = ''Column `target` missing (found `label`)'',
       effect = ''CT retrain pipeline fails'',
       cause = ''Upstream ETL changed schema'',
       detection = ''CT step 20'',
       mitigation_hint = ''Map `label` '' @ rarrow @ '' `target` before training'',
       mitigation_fix = ''Created `target` column from `label`'' \<rparr> \<rparr>"

section \<open>Asset generation\<close>

text \<open>\<open>write(path, content)\<close> of the source: make the directory of the path, then write the
  file.\<close>

definition write_file :: "fsys \<Rightarrow> string \<Rightarrow> string \<Rightarrow> content \<Rightarrow> exn + fsys" where
  "write_file fs base_dir name c =
     and_then (makedirs fs base_dir) (\<lambda>fs1. open_write fs1 base_dir name c)"

text \<open>
  The text of the generated \<open>app.py\<close>: the f-string of the source after
  \<open>textwrap.dedent\<close> and \<open>strip\<close>.
\<close>

definition app_py :: "demo \<Rightarrow> string" where
  "app_py scenario_key =
     ''# minimal app entrypoint for '' @ key_text scenario_key @
     ''\<newline>def predict(x): \<newline>    return x''"

definition leak_code :: string where
  "leak_code =
     ''\<newline>buffer = []\<newline>LEAK_DEMO = True\<newline>def infer(x):\<newline>'' @
     ''    global buffer\<newline>    if LEAK_DEMO:\<newline>'' @
     ''        buffer.append(bytes(1024*256))  # grow 256KB per call\<newline>    return x\<newline>''"

text \<open>
  \<open>generate_assets\<close> has no handler of its own: an exception of a file operation leaves
  it. The source returns \<open>base_dir\<close>; the model returns the file system it leaves.
\<close>

definition generate_assets :: "fsys \<Rightarrow> string \<Rightarrow> demo \<Rightarrow> exn + fsys" where
  "generate_assets fs base_dir scenario_key =
     and_then (if path_exists fs base_dir then rmtree fs base_dir else Inr fs) (\<lambda>fs1.
     and_then (makedirs fs1 base_dir) (\<lambda>fs2.
     and_then (write_file fs2 base_dir ''app.py'' (Text (app_py scenario_key))) (\<lambda>fs3.
       (case s_type (SCENARIOS scenario_key) of
          missing_dependency \<Rightarrow>
            and_then (write_file fs3 base_dir ''model.py''
                        (Text ''import numpy as np\<newline>\<newline>DEF_FLAG=1\<newline>'')) (\<lambda>fs4.
            write_file fs4 base_dir ''requirements.txt''
              (Text ''pandas==2.2.2\<newline># numpy intentionally missing\<newline>''))
        | dockerfile_syntax \<Rightarrow>
            and_then (write_file fs3 base_dir ''Dockerfile''
                        (Text (''FROM python:3.11-slim\<newline>WORKDIR /app\<newline>COPY.\<newline>'' @
                               ''RUN pip install -r requirements.txt\<newline>''))) (\<lambda>fs4.
            write_file fs4 base_dir ''requirements.txt'' (Text ''pandas==2.2.2\<newline>''))
        | env_missing \<Rightarrow>
            and_then (write_file fs3 base_dir ''.env''
                        (Text ''DB_USER=\<newline># DB_PASS missing\<newline>DB_HOST=\<newline>'')) (\<lambda>fs4.
            write_file fs4 base_dir ''provision.yaml''
              (Text ''service: nlp-sentiment\<newline>resources: test-db\<newline>''))
        | null_values \<Rightarrow>
            to_csv fs3 base_dir ''data.csv''
              [(''amount'', [Num 100, NaN, Num 45, NaN]),
               (''merchant'', [Str ''a'', Str ''b'', Str ''c'', Str ''d''])]
        | high_latency \<Rightarrow>
            write_file fs3 base_dir ''endpoint_profile.json''
              (Json (PDict [(''p90_ms'', PInt 1400), (''notes'', PStr ''needs tuning'')]))
        | public_bucket \<Rightarrow>
            write_file fs3 base_dir ''iac.yaml''
              (Yaml (PDict [(''bucket'', PStr ''my-forecast-bucket''),
                            (''public_write'', PBool True)]))
        | memory_leak \<Rightarrow>
            write_file fs3 base_dir ''model.py'' (Text leak_code)
        | schema_drift \<Rightarrow>
            to_csv fs3 base_dir ''training.csv''
              [(''feature1'', [Num 1, Num 2, Num 3]),
               (''feature2'', [Num (1 / 10), Num (2 / 10), Num (3 / 10)]),
               (''label'', [Num 0, Num 1, Num 0])]))))"

section \<open>Checks\<close>

text \<open>
  One required key of \<open>.env\<close>:
  \<open>"KEY=" in env and len(env.split("KEY=")[1].strip()) > 0\<close>.
\<close>

definition env_has :: "string \<Rightarrow> string \<Rightarrow> exn + bool" where
  "env_has key env =
     (if py_in key env then
        (case py_split key env of
           a # b # rest \<Rightarrow> Inr (0 < length (py_strip b))
         | _ \<Rightarrow> Inl (IndexError ''list index out of range''))
      else Inr False)"

text \<open>The body of the \<open>try\<close> block of \<open>check_step_truth\<close>.\<close>

definition check_body :: "fsys \<Rightarrow> string \<Rightarrow> demo \<Rightarrow> int \<Rightarrow> exn + (bool \<times> string)" where
  "check_body fs base_dir scenario_key step_idx =
     (let sc = SCENARIOS scenario_key; fail_step = failure_step sc
      in
      if s_type sc = missing_dependency \<and> step_idx = fail_step then
        and_then (read_text fs base_dir ''requirements.txt'') (\<lambda>req.
        and_then (read_text fs base_dir ''model.py'') (\<lambda>code.
          let imports_numpy = py_in ''numpy'' code;
              declared_numpy = py_in ''numpy'' req
          in Inr (declared_numpy \<or> \<not> imports_numpy,
                  if declared_numpy then ''numpy present'' else ''numpy missing'')))
      else if s_type sc = dockerfile_syntax \<and> step_idx = fail_step then
        and_then (read_text fs base_dir ''Dockerfile'') (\<lambda>content.
          let invalid = py_in ''COPY.'' content
          in Inr (\<not> invalid,
                  if \<not> invalid then ''Dockerfile COPY valid'' else ''Invalid COPY directive''))
      else if s_type sc = env_missing \<and> step_idx = fail_step then
        and_then (read_text fs base_dir ''.env'') (\<lambda>env.
        and_then (env_has ''DB_USER='' env) (\<lambda>has_user.
        and_then (env_has ''DB_PASS='' env) (\<lambda>has_pass.
        and_then (env_has ''DB_HOST='' env) (\<lambda>has_host.
          let ok = (has_user \<and> has_pass \<and> has_host)
          in Inr (ok, if ok then ''env ok'' else ''env keys missing'')))))
      else if s_type sc = null_values \<and> step_idx = fail_step then
        and_then (read_csv fs base_dir ''data.csv'') (\<lambda>df.
          let ok = (\<not> isna_any df)
          in Inr (ok, if ok then ''no NaNs'' else ''NaNs present''))
      else if s_type sc = high_latency \<and> step_idx = fail_step then
        and_then (json_load fs base_dir ''endpoint_profile.json'') (\<lambda>prof.
        and_then (py_get prof ''p90_ms'' (PInt 9999)) (\<lambda>p90.
        and_then (py_le_int p90 1000) (\<lambda>ok.
        and_then (py_get prof ''p90_ms'' PNone) (\<lambda>shown.
          Inr (ok, ''p90='' @ py_str shown @ ''ms'')))))
      else if s_type sc = public_bucket \<and> step_idx = fail_step then
        and_then (yaml_safe_load fs base_dir ''iac.yaml'') (\<lambda>policy.
        and_then (py_get policy ''public_write'' (PBool False)) (\<lambda>pw.
          Inr (\<not> py_truthy pw,
               if \<not> py_truthy pw then ''public_write=false'' else ''public_write=true'')))
      else if s_type sc = memory_leak \<and> step_idx = fail_step then
        and_then (read_text fs base_dir ''model.py'') (\<lambda>code.
          let leaking = py_in ''LEAK_DEMO = True'' code
          in Inr (\<not> leaking, if \<not> leaking then ''no leak'' else ''leak flag true''))
      else if s_type sc = schema_drift \<and> step_idx = fail_step then
        and_then (read_csv fs base_dir ''training.csv'') (\<lambda>df.
          let ok = (''target'' \<in> set (columns df))
          in Inr (ok, if ok then ''target present'' else ''target missing''))
      else Inr (True, ''OK''))"

text \<open>
  \<open>check_step_truth\<close>: pass before the failing step; from there on the body above, with
  every exception turned into a failing verdict.
\<close>

definition check_step_truth :: "fsys \<Rightarrow> string \<Rightarrow> demo \<Rightarrow> int \<Rightarrow> bool \<times> string" where
  "check_step_truth fs base_dir scenario_key step_idx =
     (if step_idx < failure_step (SCENARIOS scenario_key) then (True, ''OK'')
      else
        (case check_body fs base_dir scenario_key step_idx of
           Inr verdict \<Rightarrow> verdict
         | Inl e \<Rightarrow> (False, ''check error: '' @ str_exn e)))"

section \<open>Mitigation\<close>

text \<open>
  The body of the \<open>try\<close> block of \<open>apply_mitigation\<close>. Every branch ends in one write, and
  a write that raises has changed nothing, so an exception leaves the file system as it
  was.
\<close>

definition mitigation_body :: "fsys \<Rightarrow> string \<Rightarrow> demo \<Rightarrow> exn + fsys" where
  "mitigation_body fs base_dir scenario_key =
     (case s_type (SCENARIOS scenario_key) of
        missing_dependency \<Rightarrow>
          open_append fs base_dir ''requirements.txt'' ''\<newline>numpy==1.26.4\<newline>''
      | dockerfile_syntax \<Rightarrow>
          and_then (read_text fs base_dir ''Dockerfile'') (\<lambda>old.
            let txt = py_replace ''COPY.'' ''COPY . /app\<newline>'' old
            in write_file fs base_dir ''Dockerfile'' (Text txt))
      | env_missing \<Rightarrow>
          write_file fs base_dir ''.env''
            (Text ''DB_USER=demo\<newline>DB_PASS=demo123\<newline>DB_HOST=localhost\<newline>'')
      | null_values \<Rightarrow>
          and_then (read_csv fs base_dir ''data.csv'') (\<lambda>df.
            to_csv fs base_dir ''data.csv''
              (map (\<lambda>col. (fst col,
                            if numeric_kind (snd col) then fillna (mean (snd col)) (snd col)
                            else bfill (ffill (snd col)))) df))
      | high_latency \<Rightarrow>
          and_then (json_load fs base_dir ''endpoint_profile.json'') (\<lambda>prof.
          and_then (py_setitem prof ''p90_ms'' (PInt 400)) (\<lambda>prof1.
            write_file fs base_dir ''endpoint_profile.json'' (Json prof1)))
      | public_bucket \<Rightarrow>
          and_then (yaml_safe_load fs base_dir ''iac.yaml'') (\<lambda>policy.
          and_then (py_setitem policy ''public_write'' (PBool False)) (\<lambda>policy1.
            write_file fs base_dir ''iac.yaml'' (Yaml policy1)))
      | memory_leak \<Rightarrow>
          and_then (read_text fs base_dir ''model.py'') (\<lambda>old.
            let txt = py_replace ''LEAK_DEMO = True'' ''LEAK_DEMO = False\<newline># fixed'' old
            in write_file fs base_dir ''model.py'' (Text txt))
      | schema_drift \<Rightarrow>
          and_then (read_csv fs base_dir ''training.csv'') (\<lambda>df.
            to_csv fs base_dir ''training.csv''
              (if ''label'' \<in> set (columns df) \<and> ''target'' \<notin> set (columns df) then
                 (case map_of df ''label'' of
                    Some cells \<Rightarrow> df @ [(''target'', cells)]
                  | None \<Rightarrow> df)
               else if ''target'' \<notin> set (columns df) then
                 df @ [(''target'', replicate (nrows df) (Num 0))]
               else df)))"

text \<open>
  \<open>apply_mitigation\<close> returns \<open>(ok, message)\<close>; the model returns the file system it
  leaves as well.
\<close>

definition apply_mitigation :: "fsys \<Rightarrow> string \<Rightarrow> demo \<Rightarrow> fsys \<times> bool \<times> string" where
  "apply_mitigation fs base_dir scenario_key =
     (case mitigation_body fs base_dir scenario_key of
        Inr fs1 \<Rightarrow> (fs1, True, mitigation_fix (fmea (SCENARIOS scenario_key)))
      | Inl e \<Rightarrow> (fs, False, ''mitigation error: '' @ str_exn e))"

section \<open>The session and one run of the script\<close>

datatype cloud_provider = AWS | GCP | Azure

fun CLOUD_MAP :: "cloud_provider \<Rightarrow> (int \<times> string) list" where
  "CLOUD_MAP AWS =
     [(1, ''GitHub/CodeCommit''), (2, ''CodeBuild (static)''), (3, ''CodeBuild (deps)''),
      (4, ''PyTest in CodeBuild''), (5, ''CodeBuild (integration)''),
      (6, ''Docker build (CodeBuild)''), (7, ''ECR push''),
      (8, ''CloudFormation/Terraform validate''), (9, ''Inspector/CodeGuru Security''),
      (10, ''Provision test env (CloudFormation)''), (11, ''Deploy to test (ECS/EKS)''),
      (12, ''Smoke tests (Canaries)''), (13, ''Deploy staging (ECS/EKS)''),
      (14, ''Load test (CloudWatch Synthetics)''), (15, ''Pre-prod deploy''),
      (16, ''UAT (AppConfig feature flags)''), (17, ''Approval (CodePipeline Manual)''),
      (18, ''Prod deploy (Blue/Green)''), (19, ''Monitoring (CloudWatch/Prometheus)''),
      (20, ''CT retrain (SageMaker Pipelines)'')]"
| "CLOUD_MAP GCP =
     [(1, ''GitHub/Cloud Source Repos''), (2, ''Cloud Build (static)''),
      (3, ''Cloud Build (deps)''), (4, ''PyTest in Cloud Build''),
      (5, ''Cloud Build (integration)''), (6, ''Docker build (Cloud Build)''),
      (7, ''Artifact Registry push''), (8, ''Terraform/DM validate''),
      (9, ''Security Command Center''), (10, ''Provision test env (Terraform)''),
      (11, ''Deploy to test (GKE)''), (12, ''Smoke tests (Cloud Run Jobs)''),
      (13, ''Deploy staging (GKE)''), (14, ''Load test (Cloud Monitoring SLOs)''),
      (15, ''Pre-prod deploy''), (16, ''UAT (Launch Config)''),
      (17, ''Approval (Cloud Deploy)''), (18, ''Prod deploy (Blue/Green)''),
      (19, ''Monitoring (Cloud Monitoring)''), (20, ''CT retrain (Vertex AI Pipelines)'')]"
| "CLOUD_MAP Azure =
     [(1, ''GitHub/Azure Repos''), (2, ''Azure Pipelines (static)''), (3, ''Pipelines (deps)''),
      (4, ''PyTest in Pipelines''), (5, ''Pipelines (integration)''),
      (6, ''Docker build (Pipelines)''), (7, ''ACR push''),
      (8, ''ARM/Bicep/Terraform validate''), (9, ''Defender for Cloud''),
      (10, ''Provision test env (Bicep/Terraform)''), (11, ''Deploy to test (AKS)''),
      (12, ''Smoke tests (Playwright/Func Tests)''), (13, ''Deploy staging (AKS)''),
      (14, ''Load test (Azure Load Testing)''), (15, ''Pre-prod deploy''),
      (16, ''UAT (Feature Management)''), (17, ''Approval (Environments)''),
      (18, ''Prod deploy (Blue/Green)''), (19, ''Monitoring (Azure Monitor)''),
      (20, ''CT retrain (ML Pipelines)'')]"

definition STEPS :: "string list" where
  "STEPS =
     [''Code Commit'', ''Static Code Analysis'', ''Dependency Check'', ''Unit Tests'',
      ''Integration Tests'', ''Build Docker Image'', ''Push to Container Registry'',
      ''IaC Validation'', ''Security Scan'', ''Provision Test Environment'',
      ''Deploy to Test'', ''Smoke Tests'', ''Deploy to Staging'', ''Load Tests'',
      ''Deploy to Pre-Prod'', ''User Acceptance Testing'', ''Approval Gate'',
      ''Deploy to Production'', ''Post-Deploy Monitoring'',
      ''Feedback Loop & Continuous Training'']"

text \<open>\<open>enumerate(xs, start=i)\<close> and \<open>"\n".join(lines)\<close>\<close>

primrec enumerate_from :: "int \<Rightarrow> 'a list \<Rightarrow> (int \<times> 'a) list" where
  "enumerate_from i [] = []"
| "enumerate_from i (x # xs) = (i, x) # enumerate_from (i + 1) xs"

fun join_lines :: "string list \<Rightarrow> string" where
  "join_lines [] = []"
| "join_lines [l] = l"
| "join_lines (l # m # ls) = l @ ''\<newline>'' @ join_lines (m # ls)"

text \<open>
  \<open>st.session_state\<close>. \<open>init_state\<close> is the session that the \<open>setdefault\<close> calls build
  on the first run of the script; on a later run they change nothing.
\<close>

record session =
  cloud :: cloud_provider
  demo_key :: "demo option"
  assets_dir :: "string option"
  debug_attempts :: int
  last_run_logs :: "string list"
  last_failure :: "(int \<times> string) option"
  pipeline_completed :: bool
  running :: bool

definition init_state :: session where
  "init_state = \<lparr>
     cloud = AWS,
     demo_key = None,
     assets_dir = None,
     debug_attempts = 0,
     last_run_logs = [],
     last_failure = None,
     pipeline_completed = False,
     running = False \<rparr>"

text \<open>
  What a run of the script shows: the calls of \<open>st.markdown\<close>, \<open>st.warning\<close>, \<open>st.error\<close>,
  \<open>st.success\<close>, \<open>st.info\<close> and of \<open>log_placeholder.code\<close> made by the handler of the fix
  button and by the loop over the steps, in order. The fixed texts of the page (title,
  guidance panel, sidebar, footer), the progress bar and the pacing delay are left out.
\<close>

datatype shown =
    st_markdown string
  | st_warning string
  | st_error string
  | st_success string
  | st_info string
  | st_code string

text \<open>The directory of a scenario:
  \<open>os.path.join("/tmp", "ci_ct_cd_sim", demo_key.replace(" ","_").replace(middot,"_"))\<close>.\<close>

definition assets_dir_for :: "demo \<Rightarrow> string" where
  "assets_dir_for k =
     path_join (path_join ''/tmp'' ''ci_ct_cd_sim'')
       (py_replace middot ''_'' (py_replace '' '' ''_'' (key_text k)))"

text \<open>
  The handler of the button "Apply Fix & Retry". It returns the file system, the session,
  the value of \<open>run_btn\<close> after it, and what it has shown.
\<close>

definition fix_handler ::
  "fsys \<Rightarrow> session \<Rightarrow> string \<Rightarrow> demo \<Rightarrow> bool \<Rightarrow> fsys \<times> session \<times> bool \<times> shown list" where
  "fix_handler fs ss dir k run_btn =
     (if last_failure ss = None then
        (fs, ss, run_btn, [st_warning ''No failure detected yet. Run the pipeline first.''])
      else if debug_attempts ss \<ge> 2 then
        (fs, ss, run_btn,
         [st_error ''Debug attempts exhausted (max 2). Reset by choosing another demo.''])
      else
        (case apply_mitigation fs dir k of
           (fs1, ok, msg) \<Rightarrow>
             if ok then
               (fs1, ss\<lparr>debug_attempts := debug_attempts ss + 1\<rparr>, True,
                [st_success (''Mitigation applied: '' @ msg @ ''  '' @ bullet @
                             '' Attempts used: '' @ str_int (debug_attempts ss + 1) @ ''/2'')])
             else (fs1, ss, run_btn, [st_error msg])))"

text \<open>
  The loop over the steps. It stops at the first step whose check fails (\<open>break\<close>).
\<close>

fun run_steps ::
  "fsys \<Rightarrow> string \<Rightarrow> demo \<Rightarrow> session \<Rightarrow> (int \<times> string) list \<Rightarrow> session \<times> shown list" where
  "run_steps fs dir k ss [] = (ss, [])"
| "run_steps fs dir k ss ((idx, step) # rest) =
     (let cloud_service = (case map_of (CLOUD_MAP (cloud ss)) idx of
                             Some label \<Rightarrow> label | None \<Rightarrow> [])
      in let header = ''Step '' @ fmt_02d idx @ '' '' @ middot @ '' '' @ step @ ''  '' @ emdash @
                      ''  <span class='small'>'' @ cloud_service @ ''</span>''
      in let card = [st_markdown (''<div class='stepcard'><b>'' @ header @ ''</b>''),
                     st_markdown (''<span class='small'>Why:</span> Ensures quality before '' @
                       ''moving forward. <span class='small'>What to do here:</span> Follow '' @
                       ''logs; if this step fails, read FMEA and apply mitigation.'')]
      in case check_step_truth fs dir k idx of
        (ok, detail) \<Rightarrow>
          if ok then
            (let msg = check_mark @ '' '' @ step @ '': OK ('' @ detail @ '')''
             in let ss1 = ss\<lparr>last_run_logs := last_run_logs ss @ [msg]\<rparr>
             in case run_steps fs dir k ss1 rest of
               (ss2, out) \<Rightarrow>
                 (ss2, card @ [st_markdown msg, st_markdown ''</div>'',
                               st_code (join_lines (last_run_logs ss1))] @ out))
          else
            (let f = fmea (SCENARIOS k)
             in let fail_line = cross_mark @ '' '' @ step @ '': '' @ detail
             in let logs = last_run_logs ss @ [fail_line]
             in (ss\<lparr>last_run_logs := logs, last_failure := Some (idx, detail),
                    running := False\<rparr>,
                 card @
                 [st_markdown (''**<span class='err'>'' @ cross_mark @ '' FAILED</span> '' @
                               emdash @ '' '' @ detail @ ''**''),
                  st_error (''FMEA '' @ bullet @ '' Failure Mode: '' @ mode f @
                            ''\<newline>\<newline>Effect: '' @ effect f @
                            ''\<newline>\<newline>Likely Cause: '' @ cause f @
                            ''\<newline>\<newline>Detection Point: '' @ detection f),
                  (if debug_attempts ss < 2 then
                     st_warning (''Mitigation Suggestion: '' @ mitigation_hint f @ ''  '' @
                                 rarrow @ '' Click **Apply Fix & Retry** (Attempts used: '' @
                                 str_int (debug_attempts ss) @ ''/2)'')
                   else
                     st_info (''Max debug attempts used. Final Suggested Fix: '' @
                              mitigation_fix f @ ''  '' @ bullet @
                              '' Switch demo to reset attempts.'')),
                  st_markdown ''</div>'',
                  st_code (join_lines logs)])))"

text \<open>The block \<open>if run_btn:\<close>.\<close>

definition run_pipeline ::
  "fsys \<Rightarrow> session \<Rightarrow> string \<Rightarrow> demo \<Rightarrow> session \<times> shown list" where
  "run_pipeline fs ss dir k =
     (let ss1 = ss\<lparr>running := True, last_run_logs := [], pipeline_completed := False,
                  last_failure := None\<rparr>
      in case run_steps fs dir k ss1 (enumerate_from 1 STEPS) of
        (ss2, out) \<Rightarrow>
          if last_failure ss2 = None then
            (ss2\<lparr>pipeline_completed := True, running := False\<rparr>,
             out @ [st_success (party @ '' Pipeline completed successfully end-to-end!'')])
          else (ss2, out))"

text \<open>
  One run of the script, from the widgets to the end of the pipeline block. The inputs are
  the provider and the demo the user has selected and the two buttons. An exception that
  nothing catches ends the run; the result is then the exception alone.
\<close>

definition script ::
  "cloud_provider \<Rightarrow> demo \<Rightarrow> bool \<Rightarrow> bool \<Rightarrow> fsys \<times> session \<Rightarrow>
   exn + (fsys \<times> session \<times> shown list)" where
  "script cloud_sel demo_sel run_click fix_click st =
     (case st of (fs, ss0) \<Rightarrow>
        let dir = assets_dir_for demo_sel
        in let ss = ss0\<lparr>cloud := cloud_sel, demo_key := Some demo_sel, assets_dir := Some dir\<rparr>
        in case (if fix_click then fix_handler fs ss dir demo_sel run_click
                 else (fs, ss, run_click, [])) of
          (fs1, ss1, run_btn, out1) \<Rightarrow>
            and_then
              (if \<not> path_exists fs1 dir \<or> last_run_logs ss1 = [] \<or> run_btn
               then generate_assets fs1 dir demo_sel else Inr fs1)
              (\<lambda>fs2.
                 if run_btn then
                   (case run_pipeline fs2 ss1 dir demo_sel of
                      (ss2, out2) \<Rightarrow> Inr (fs2, ss2, out1 @ out2))
                 else Inr (fs2, ss1, out1)))"

definition empty_fs :: fsys where
  "empty_fs = (\<lambda>p. Absent)"

section \<open>The generated directory\<close>

text \<open>
  The directory that \<open>generate_assets\<close> leaves for a scenario, written out. The lemma
  \<open>generate_assets_baseline\<close> below shows that this is what \<open>generate_assets\<close> computes.
\<close>

definition baseline :: "demo \<Rightarrow> (string \<rightharpoonup> entry)" where
  "baseline k =
     (case s_type (SCENARIOS k) of
        missing_dependency \<Rightarrow>
          [''app.py'' \<mapsto> File (Text (app_py k)),
           ''model.py'' \<mapsto> File (Text ''import numpy as np\<newline>\<newline>DEF_FLAG=1\<newline>''),
           ''requirements.txt'' \<mapsto>
             File (Text ''pandas==2.2.2\<newline># numpy intentionally missing\<newline>'')]
      | dockerfile_syntax \<Rightarrow>
          [''app.py'' \<mapsto> File (Text (app_py k)),
           ''Dockerfile'' \<mapsto>
             File (Text (''FROM python:3.11-slim\<newline>WORKDIR /app\<newline>COPY.\<newline>'' @
                         ''RUN pip install -r requirements.txt\<newline>'')),
           ''requirements.txt'' \<mapsto> File (Text ''pandas==2.2.2\<newline>'')]
      | env_missing \<Rightarrow>
          [''app.py'' \<mapsto> File (Text (app_py k)),
           ''.env'' \<mapsto> File (Text ''DB_USER=\<newline># DB_PASS missing\<newline>DB_HOST=\<newline>''),
           ''provision.yaml'' \<mapsto>
             File (Text ''service: nlp-sentiment\<newline>resources: test-db\<newline>'')]
      | null_values \<Rightarrow>
          [''app.py'' \<mapsto> File (Text (app_py k)),
           ''data.csv'' \<mapsto>
             File (Csv [(''amount'', [Num 100, NaN, Num 45, NaN]),
                        (''merchant'', [Str ''a'', Str ''b'', Str ''c'', Str ''d''])])]
      | high_latency \<Rightarrow>
          [''app.py'' \<mapsto> File (Text (app_py k)),
           ''endpoint_profile.json'' \<mapsto>
             File (Json (PDict [(''p90_ms'', PInt 1400), (''notes'', PStr ''needs tuning'')]))]
      | public_bucket \<Rightarrow>
          [''app.py'' \<mapsto> File (Text (app_py k)),
           ''iac.yaml'' \<mapsto>
             File (Yaml (PDict [(''bucket'', PStr ''my-forecast-bucket''),
                                (''public_write'', PBool True)]))]
      | memory_leak \<Rightarrow>
          [''app.py'' \<mapsto> File (Text (app_py k)),
           ''model.py'' \<mapsto> File (Text leak_code)]
      | schema_drift \<Rightarrow>
          [''app.py'' \<mapsto> File (Text (app_py k)),
           ''training.csv'' \<mapsto>
             File (Csv [(''feature1'', [Num 1, Num 2, Num 3]),
                        (''feature2'', [Num (1 / 10), Num (2 / 10), Num (3 / 10)]),
                        (''label'', [Num 0, Num 1, Num 0])])])"

section \<open>The configuration check as the specification words it\<close>

text \<open>
  This section does not come from the source: it writes down the pass condition of the
  specification for the scenario \<open>env_missing\<close>, "all three required keys are present
  AND non-empty", to compare \<open>check_step_truth\<close> with it. The value of a key is what
  follows \<open>KEY=\<close> on the first line that starts with it.
\<close>

fun spec_env_value :: "string \<Rightarrow> string list \<Rightarrow> string option" where
  "spec_env_value key [] = None"
| "spec_env_value key (l # ls) =
     (if startswith (py_strip l) (key @ ''='')
      then Some (py_strip (drop (length key + 1) (py_strip l)))
      else spec_env_value key ls)"

definition spec_key_set :: "string \<Rightarrow> string \<Rightarrow> bool" where
  "spec_key_set key env =
     (case spec_env_value key (py_split ''\<newline>'' env) of
        None \<Rightarrow> False
      | Some v \<Rightarrow> v \<noteq> [])"

definition spec_env_ok :: "string \<Rightarrow> bool" where
  "spec_env_ok env =
     (spec_key_set ''DB_USER'' env \<and> spec_key_set ''DB_PASS'' env \<and> spec_key_set ''DB_HOST'' env)"

section \<open>Evaluation rules\<close>

lemma and_then_Inl [simp]: "and_then (Inl e) f = Inl e"
  by (simp add: and_then_def)

lemma and_then_Inr [simp]: "and_then (Inr x) f = f x"
  by (simp add: and_then_def)

lemmas file_ops =
  path_join_def path_exists_def rmtree_def makedirs_def open_read_def read_text_def
  json_load_def yaml_safe_load_def read_csv_def open_write_def open_append_def to_csv_def
  write_file_def

lemmas table_ops = isna_any_def numeric_kind_def mean_def fillna_def ffill_def bfill_def
  columns_def nrows_def

lemmas engine_defs = generate_assets_def apply_mitigation_def mitigation_body_def
  check_step_truth_def check_body_def env_has_def py_replace_def py_split_def py_strip_def
  is_space_def leak_code_def str_int_def str_nat.simps

section \<open>Stages other than the failing one\<close>

text \<open>
  Claim C6. For every scenario and every stage index other than the failing stage of the
  scenario, before it or after it, \<open>check_step_truth\<close> returns \<open>(True, "OK")\<close>, whatever
  the working area holds.
\<close>

theorem other_stage_passes:
  "step_idx \<noteq> failure_step (SCENARIOS scenario_key) \<Longrightarrow>
   check_step_truth fs base_dir scenario_key step_idx = (True, ''OK'')"
  by (simp add: check_step_truth_def check_body_def Let_def)

theorem other_stage_passes_witness:
  "(4::int) \<noteq> failure_step (SCENARIOS Demo3) \<and>
   (11::int) \<noteq> failure_step (SCENARIOS Demo3) \<and>
   check_step_truth empty_fs ''nowhere'' Demo3 4 = (True, ''OK'') \<and>
   check_step_truth empty_fs ''nowhere'' Demo3 11 = (True, ''OK'')"
  using other_stage_passes [of 4 Demo3 empty_fs "''nowhere''"]
        other_stage_passes [of 11 Demo3 empty_fs "''nowhere''"]
  by simp

section \<open>The latency profile without its key\<close>

text \<open>
  Claim C10. In the high-latency scenario, when the endpoint profile is a dictionary that
  has no key \<open>p90_ms\<close>, the check at the failing stage fails: the default 9999 stands in
  for the value and is above the threshold of 1000, and the detail prints \<open>None\<close>.
\<close>

theorem missing_p90_fails:
  "fs base_dir = Dir d \<Longrightarrow>
   d ''endpoint_profile.json'' = Some (File (Json (PDict prof))) \<Longrightarrow>
   map_of prof ''p90_ms'' = None \<Longrightarrow>
   check_step_truth fs base_dir Demo5 15 = (False, ''p90=Nonems'')"
  by (simp add: check_step_truth_def check_body_def Let_def json_load_def open_read_def)

theorem missing_p90_fails_witness:
  "check_step_truth
     (empty_fs(''w'' := Dir [''endpoint_profile.json'' \<mapsto>
                               File (Json (PDict [(''notes'', PStr ''needs tuning'')]))]))
     ''w'' Demo5 15 = (False, ''p90=Nonems'')"
  using missing_p90_fails
    [of "empty_fs(''w'' := Dir [''endpoint_profile.json'' \<mapsto>
                               File (Json (PDict [(''notes'', PStr ''needs tuning'')]))])"
        "''w''"
        "[''endpoint_profile.json'' \<mapsto> File (Json (PDict [(''notes'', PStr ''needs tuning'')]))]"
        "[(''notes'', PStr ''needs tuning'')]"]
  by simp

section \<open>What a verdict depends on\<close>

lemma check_body_local:
  "fs base_dir = fs' base_dir \<Longrightarrow>
   check_body fs base_dir k i = check_body fs' base_dir k i"
  by (simp add: check_body_def file_ops cong: if_cong)

lemma check_step_truth_local:
  "fs base_dir = fs' base_dir \<Longrightarrow>
   check_step_truth fs base_dir k i = check_step_truth fs' base_dir k i"
  by (simp add: check_step_truth_def check_body_local [of fs base_dir fs'])

lemma run_steps_outcome:
  "fs dir = fs' dir \<Longrightarrow>
   last_run_logs ss = last_run_logs ss' \<Longrightarrow>
   last_failure ss = last_failure ss' \<Longrightarrow>
   pipeline_completed ss = pipeline_completed ss' \<Longrightarrow>
   last_run_logs (fst (run_steps fs dir k ss steps)) =
     last_run_logs (fst (run_steps fs' dir k ss' steps)) \<and>
   last_failure (fst (run_steps fs dir k ss steps)) =
     last_failure (fst (run_steps fs' dir k ss' steps)) \<and>
   pipeline_completed (fst (run_steps fs dir k ss steps)) =
     pipeline_completed (fst (run_steps fs' dir k ss' steps))"
proof (induction steps arbitrary: ss ss')
  case Nil
  then show ?case by simp
next
  case (Cons p rest)
  obtain idx step where p: "p = (idx, step)" by (cases p)
  obtain ok detail where v: "check_step_truth fs dir k idx = (ok, detail)"
    by (cases "check_step_truth fs dir k idx")
  have v': "check_step_truth fs' dir k idx = (ok, detail)"
    using v Cons.prems(1) check_step_truth_local [of fs dir fs' k idx] by simp
  show ?case
  proof (cases ok)
    case False
    then show ?thesis using p v v' Cons.prems by (simp add: Let_def)
  next
    case True
    let ?msg = "check_mark @ '' '' @ step @ '': OK ('' @ detail @ '')''"
    let ?s = "ss\<lparr>last_run_logs := last_run_logs ss @ [?msg]\<rparr>"
    let ?s' = "ss'\<lparr>last_run_logs := last_run_logs ss' @ [?msg]\<rparr>"
    have ih: "last_run_logs (fst (run_steps fs dir k ?s rest)) =
                last_run_logs (fst (run_steps fs' dir k ?s' rest)) \<and>
              last_failure (fst (run_steps fs dir k ?s rest)) =
                last_failure (fst (run_steps fs' dir k ?s' rest)) \<and>
              pipeline_completed (fst (run_steps fs dir k ?s rest)) =
                pipeline_completed (fst (run_steps fs' dir k ?s' rest))"
      using Cons.IH [of ?s ?s'] Cons.prems by simp
    obtain s2 out where r: "run_steps fs dir k ?s rest = (s2, out)"
      by (cases "run_steps fs dir k ?s rest")
    obtain s2' out' where r': "run_steps fs' dir k ?s' rest = (s2', out')"
      by (cases "run_steps fs' dir k ?s' rest")
    have cur: "fst (run_steps fs dir k ss (p # rest)) = s2"
      using True p v r by (simp add: Let_def)
    have cur': "fst (run_steps fs' dir k ss' (p # rest)) = s2'"
      using True p v' r' by (simp add: Let_def)
    show ?thesis using ih r r' cur cur' by simp
  qed
qed

text \<open>
  Claim C9. The verdict of a check is a function of the content of the scenario's own
  directory: two file systems that agree on that directory give the same
  \<open>(pass, detail)\<close>. A run of the pipeline records the same log lines, the same failure
  and the same completion flag whatever the session held before, so neither the selected
  cloud provider nor the attempt count enters the verdict; the program draws no random
  number.
\<close>

theorem verdict_depends_on_artifacts_only:
  "fs base_dir = fs' base_dir \<Longrightarrow>
   check_step_truth fs base_dir k i = check_step_truth fs' base_dir k i \<and>
   last_run_logs (fst (run_pipeline fs ss base_dir k)) =
     last_run_logs (fst (run_pipeline fs' ss' base_dir k)) \<and>
   last_failure (fst (run_pipeline fs ss base_dir k)) =
     last_failure (fst (run_pipeline fs' ss' base_dir k)) \<and>
   pipeline_completed (fst (run_pipeline fs ss base_dir k)) =
     pipeline_completed (fst (run_pipeline fs' ss' base_dir k))"
proof -
  assume same: "fs base_dir = fs' base_dir"
  let ?s = "ss\<lparr>running := True, last_run_logs := [], pipeline_completed := False,
                last_failure := None\<rparr>"
  let ?s' = "ss'\<lparr>running := True, last_run_logs := [], pipeline_completed := False,
                last_failure := None\<rparr>"
  have loop: "last_run_logs (fst (run_steps fs base_dir k ?s (enumerate_from 1 STEPS))) =
                last_run_logs (fst (run_steps fs' base_dir k ?s' (enumerate_from 1 STEPS))) \<and>
              last_failure (fst (run_steps fs base_dir k ?s (enumerate_from 1 STEPS))) =
                last_failure (fst (run_steps fs' base_dir k ?s' (enumerate_from 1 STEPS))) \<and>
              pipeline_completed (fst (run_steps fs base_dir k ?s (enumerate_from 1 STEPS))) =
                pipeline_completed (fst (run_steps fs' base_dir k ?s' (enumerate_from 1 STEPS)))"
    using same run_steps_outcome [of fs base_dir fs' ?s ?s' k "enumerate_from 1 STEPS"] by simp
  obtain s2 out where r: "run_steps fs base_dir k ?s (enumerate_from 1 STEPS) = (s2, out)"
    by (cases "run_steps fs base_dir k ?s (enumerate_from 1 STEPS)")
  obtain s2' out' where r': "run_steps fs' base_dir k ?s' (enumerate_from 1 STEPS) = (s2', out')"
    by (cases "run_steps fs' base_dir k ?s' (enumerate_from 1 STEPS)")
  have eqs: "last_run_logs s2 = last_run_logs s2'" "last_failure s2 = last_failure s2'"
    "pipeline_completed s2 = pipeline_completed s2'"
    using loop r r' by simp_all
  have pipe: "last_run_logs (fst (run_pipeline fs ss base_dir k)) =
     last_run_logs (fst (run_pipeline fs' ss' base_dir k)) \<and>
   last_failure (fst (run_pipeline fs ss base_dir k)) =
     last_failure (fst (run_pipeline fs' ss' base_dir k)) \<and>
   pipeline_completed (fst (run_pipeline fs ss base_dir k)) =
     pipeline_completed (fst (run_pipeline fs' ss' base_dir k))"
    using r r' eqs by (simp add: run_pipeline_def Let_def)
  show ?thesis using pipe same check_step_truth_local [of fs base_dir fs' k i] by simp
qed


theorem verdict_depends_on_artifacts_only_witness:
  "check_step_truth empty_fs ''w'' Demo2 6 =
     check_step_truth (empty_fs(''elsewhere'' := NonDir)) ''w'' Demo2 6 \<and>
   last_run_logs (fst (run_pipeline empty_fs init_state ''w'' Demo2)) =
     last_run_logs (fst (run_pipeline (empty_fs(''elsewhere'' := NonDir))
                           (init_state\<lparr>cloud := Azure, debug_attempts := 2\<rparr>) ''w'' Demo2)) \<and>
   last_failure (fst (run_pipeline empty_fs init_state ''w'' Demo2)) =
     last_failure (fst (run_pipeline (empty_fs(''elsewhere'' := NonDir))
                           (init_state\<lparr>cloud := Azure, debug_attempts := 2\<rparr>) ''w'' Demo2)) \<and>
   pipeline_completed (fst (run_pipeline empty_fs init_state ''w'' Demo2)) =
     pipeline_completed (fst (run_pipeline (empty_fs(''elsewhere'' := NonDir))
                           (init_state\<lparr>cloud := Azure, debug_attempts := 2\<rparr>) ''w'' Demo2))"
  using verdict_depends_on_artifacts_only
    [of empty_fs "''w''" "empty_fs(''elsewhere'' := NonDir)" Demo2 6 init_state
        "init_state\<lparr>cloud := Azure, debug_attempts := 2\<rparr>"]
  by (simp add: empty_fs_def)

section \<open>The gate of the fix button\<close>

lemma mitigate_docker_example:
  "apply_mitigation (empty_fs(''w'' := Dir [''Dockerfile'' \<mapsto> File (Text ''COPY.'')])) ''w'' Demo2 =
     (empty_fs(''w'' := Dir [''Dockerfile'' \<mapsto> File (Text ''COPY . /app\<newline>'')]), True,
      ''Fixed Dockerfile COPY directive'')"
  by (simp add: apply_mitigation_def mitigation_body_def file_ops py_replace_def)

text \<open>
  Claim C5. The handler of the fix button reaches \<open>apply_mitigation\<close> exactly when a
  failure is recorded and fewer than two attempts are used. When it refuses (no recorded
  failure, or two attempts used) the file system, the session and so the attempt count are
  as before and only the refusal is shown. When it goes ahead the file system is the one
  \<open>apply_mitigation\<close> leaves, and the attempt count grows by one exactly when the
  mitigation reports success.
\<close>

theorem fix_handler_gate:
  assumes "fix_handler fs ss dir k run_btn = (fs', ss', run_btn', out)"
    and "apply_mitigation fs dir k = (fsm, ok, msg)"
  shows
   "(last_failure ss = None \<longrightarrow>
       fs' = fs \<and> ss' = ss \<and> run_btn' = run_btn \<and>
       out = [st_warning ''No failure detected yet. Run the pipeline first.'']) \<and>
    (last_failure ss \<noteq> None \<and> 2 \<le> debug_attempts ss \<longrightarrow>
       fs' = fs \<and> ss' = ss \<and> run_btn' = run_btn \<and>
       out = [st_error ''Debug attempts exhausted (max 2). Reset by choosing another demo.'']) \<and>
    (last_failure ss \<noteq> None \<and> debug_attempts ss < 2 \<longrightarrow>
       fs' = fsm \<and>
       (ok \<longrightarrow> ss' = ss\<lparr>debug_attempts := debug_attempts ss + 1\<rparr> \<and> run_btn') \<and>
       (\<not> ok \<longrightarrow> ss' = ss \<and> run_btn' = run_btn \<and> out = [st_error msg])) \<and>
    (debug_attempts ss' = debug_attempts ss + 1 \<longleftrightarrow>
       last_failure ss \<noteq> None \<and> debug_attempts ss < 2 \<and> ok) \<and>
    (debug_attempts ss' = debug_attempts ss \<or> debug_attempts ss' = debug_attempts ss + 1)"
  using assms by (auto simp: fix_handler_def split: if_splits)

theorem fix_handler_gate_witness:
  "fix_handler (empty_fs(''w'' := Dir [''Dockerfile'' \<mapsto> File (Text ''COPY.'')]))
     (init_state\<lparr>last_failure := Some (6, ''Invalid COPY directive'')\<rparr>) ''w'' Demo2 False =
     (empty_fs(''w'' := Dir [''Dockerfile'' \<mapsto> File (Text ''COPY . /app\<newline>'')]),
      init_state\<lparr>last_failure := Some (6, ''Invalid COPY directive''), debug_attempts := 1\<rparr>,
      True,
      [st_success (''Mitigation applied: Fixed Dockerfile COPY directive  '' @ bullet @
                   '' Attempts used: 1/2'')]) \<and>
   last_failure (init_state\<lparr>last_failure := Some (6, ''Invalid COPY directive'')\<rparr>) \<noteq> None \<and>
   debug_attempts (init_state\<lparr>last_failure := Some (6, ''Invalid COPY directive'')\<rparr>) < 2 \<and>
   debug_attempts (init_state\<lparr>last_failure := Some (6, ''Invalid COPY directive''),
                     debug_attempts := 1\<rparr>) =
     debug_attempts (init_state\<lparr>last_failure := Some (6, ''Invalid COPY directive'')\<rparr>) + 1 \<and>
   fix_handler empty_fs init_state ''w'' Demo2 False =
     (empty_fs, init_state, False,
      [st_warning ''No failure detected yet. Run the pipeline first.'']) \<and>
   last_failure init_state = None"
proof -
  have run: "fix_handler (empty_fs(''w'' := Dir [''Dockerfile'' \<mapsto> File (Text ''COPY.'')]))
     (init_state\<lparr>last_failure := Some (6, ''Invalid COPY directive'')\<rparr>) ''w'' Demo2 False =
     (empty_fs(''w'' := Dir [''Dockerfile'' \<mapsto> File (Text ''COPY . /app\<newline>'')]),
      init_state\<lparr>last_failure := Some (6, ''Invalid COPY directive''), debug_attempts := 1\<rparr>,
      True,
      [st_success (''Mitigation applied: Fixed Dockerfile COPY directive  '' @ bullet @
                   '' Attempts used: 1/2'')])"
    by (simp add: fix_handler_def mitigate_docker_example init_state_def str_int_def
          str_nat.simps)
  obtain fsm ok msg where m: "apply_mitigation empty_fs ''w'' Demo2 = (fsm, ok, msg)"
    by (cases "apply_mitigation empty_fs ''w'' Demo2")
  have rej: "fix_handler empty_fs init_state ''w'' Demo2 False =
     (empty_fs, init_state, False,
      [st_warning ''No failure detected yet. Run the pipeline first.''])"
    by (simp add: fix_handler_def init_state_def)
  show ?thesis
    using fix_handler_gate [OF run mitigate_docker_example] fix_handler_gate [OF rej m] run rej
    by (simp add: init_state_def)
qed

section \<open>Exceptions and verdicts\<close>

lemma write_file_raises_unchanged:
  "write_file fs dir name c = Inl e \<Longrightarrow> makedirs fs dir = Inl e \<or> makedirs fs dir = Inr fs"
  by (auto simp: write_file_def makedirs_def open_write_def
           split: node.splits option.splits entry.splits)

text \<open>
  Claim C8, as amended. An exception raised inside the \<open>try\<close> block of
  \<open>check_step_truth\<close> becomes the failing verdict \<open>(False, "check error: ...")\<close>, and an
  exception raised inside the \<open>try\<close> block of \<open>apply_mitigation\<close> becomes the result
  \<open>(False, "mitigation error: ...")\<close> with the file system as it was.
\<close>

theorem errors_become_verdicts:
  "(check_body fs dir k i = Inl e \<longrightarrow>
      check_step_truth fs dir k i = (False, ''check error: '' @ str_exn e)) \<and>
   (mitigation_body fs dir k = Inl e' \<longrightarrow>
      apply_mitigation fs dir k = (fs, False, ''mitigation error: '' @ str_exn e'))"
proof -
  have "check_body fs dir k i = Inl e \<Longrightarrow> \<not> i < failure_step (SCENARIOS k)"
    by (auto simp: check_body_def Let_def split: if_splits)
  then show ?thesis
    by (simp add: check_step_truth_def apply_mitigation_def)
qed

theorem errors_become_verdicts_witness:
  "check_body empty_fs ''w'' Demo2 6 = Inl (FileNotFoundError ''w/Dockerfile'') \<and>
   mitigation_body empty_fs ''w'' Demo2 = Inl (FileNotFoundError ''w/Dockerfile'') \<and>
   check_step_truth empty_fs ''w'' Demo2 6 =
     (False, ''check error: [Errno 2] No such file or directory: '' @ sq @ ''w/Dockerfile'' @ sq) \<and>
   apply_mitigation empty_fs ''w'' Demo2 =
     (empty_fs, False,
      ''mitigation error: [Errno 2] No such file or directory: '' @ sq @
      ''w/Dockerfile'' @ sq)"
proof -
  have c: "check_body empty_fs ''w'' Demo2 6 = Inl (FileNotFoundError ''w/Dockerfile'')"
    by (simp add: check_body_def file_ops empty_fs_def)
  have m: "mitigation_body empty_fs ''w'' Demo2 = Inl (FileNotFoundError ''w/Dockerfile'')"
    by (simp add: mitigation_body_def file_ops empty_fs_def)
  show ?thesis
    using c m
      errors_become_verdicts [of empty_fs "''w''" Demo2 6 "FileNotFoundError ''w/Dockerfile''"
        "FileNotFoundError ''w/Dockerfile''"]
  by simp
qed

text \<open>
  Claim C8 as stated also covers generation. \<open>generate_assets\<close> has no handler: when the
  path of the working directory names something that is not a directory,
  \<open>shutil.rmtree\<close> raises and the exception ends the run of the script.
\<close>

theorem generate_error_escapes:
  "script AWS Demo1 True False (empty_fs(assets_dir_for Demo1 := NonDir), init_state) =
     Inl (NotADirectoryError (assets_dir_for Demo1))"
  by (simp add: script_def Let_def generate_assets_def file_ops)

section \<open>Mitigation is sufficient\<close>

text \<open>
  Claim C3. For every scenario, generation succeeds wherever the path of the working
  directory does not name a non-directory; applying the mitigation to the generated
  baseline succeeds and makes the check at the failing stage pass; applying it a second
  time succeeds again and the check still passes.
\<close>

theorem mitigation_sufficient_and_idempotent:
  assumes "fs dir \<noteq> NonDir"
  shows
  "(case generate_assets fs dir k of
      Inl e \<Rightarrow> False
    | Inr fs1 \<Rightarrow>
        (case apply_mitigation fs1 dir k of
           (fs2, ok2, msg2) \<Rightarrow>
             ok2 \<and> fst (check_step_truth fs2 dir k (failure_step (SCENARIOS k))) \<and>
             (case apply_mitigation fs2 dir k of
                (fs3, ok3, msg3) \<Rightarrow>
                  ok3 \<and> fst (check_step_truth fs3 dir k (failure_step (SCENARIOS k))))))"
proof (cases k)
  case Demo1
  then show ?thesis using assms
    by (cases "fs dir") (simp_all add: engine_defs file_ops table_ops Let_def)
next
  case Demo2
  then show ?thesis using assms
    by (cases "fs dir") (simp_all add: engine_defs file_ops table_ops Let_def)
next
  case Demo3
  then show ?thesis using assms
    by (cases "fs dir") (simp_all add: engine_defs file_ops table_ops Let_def)
next
  case Demo4
  then show ?thesis using assms
    by (cases "fs dir") (simp_all add: engine_defs file_ops table_ops Let_def)
next
  case Demo5
  then show ?thesis using assms
    by (cases "fs dir") (simp_all add: engine_defs file_ops table_ops Let_def)
next
  case Demo6
  then show ?thesis using assms
    by (cases "fs dir") (simp_all add: engine_defs file_ops table_ops Let_def)
next
  case Demo7
  then show ?thesis using assms
    by (cases "fs dir") (simp_all add: engine_defs file_ops table_ops Let_def)
next
  case Demo8
  then show ?thesis using assms
    by (cases "fs dir") (simp_all add: engine_defs file_ops table_ops Let_def)
qed


theorem mitigation_sufficient_and_idempotent_witness:
  "empty_fs (assets_dir_for Demo4) \<noteq> NonDir \<and>
   (case generate_assets empty_fs (assets_dir_for Demo4) Demo4 of
      Inl e \<Rightarrow> False
    | Inr fs1 \<Rightarrow>
        (case apply_mitigation fs1 (assets_dir_for Demo4) Demo4 of
           (fs2, ok2, msg2) \<Rightarrow>
             ok2 \<and> fst (check_step_truth fs2 (assets_dir_for Demo4) Demo4 (failure_step (SCENARIOS Demo4))) \<and>
             (case apply_mitigation fs2 (assets_dir_for Demo4) Demo4 of
                (fs3, ok3, msg3) \<Rightarrow>
                  ok3 \<and> fst (check_step_truth fs3 (assets_dir_for Demo4) Demo4 (failure_step (SCENARIOS Demo4))))))"
proof -
  have h: "empty_fs (assets_dir_for Demo4) \<noteq> NonDir"
    by (simp add: empty_fs_def)
  show ?thesis
    using h mitigation_sufficient_and_idempotent [of empty_fs "assets_dir_for Demo4" Demo4] by simp
qed

section \<open>The generated baseline at its failing stage\<close>

text \<open>
  Seven of the eight baselines fail the check of their failing stage.
\<close>

lemma baseline_fails_elsewhere:
  assumes "fs dir \<noteq> NonDir" and "k \<noteq> Demo1"
  shows "(case generate_assets fs dir k of
            Inl e \<Rightarrow> False
          | Inr fs1 \<Rightarrow> \<not> fst (check_step_truth fs1 dir k (failure_step (SCENARIOS k))))"
  using assms
  by (cases k; cases "fs dir") (simp_all add: engine_defs file_ops table_ops Let_def)

text \<open>
  Claim C2 says that every generated baseline fails at its failing stage. The baseline of
  the scenario \<open>missing_dependency\<close> does not: the generated \<open>requirements.txt\<close> carries
  the comment \<open># numpy intentionally missing\<close>, the check looks for the substring
  \<open>numpy\<close> anywhere in the file, finds it in the comment, and passes with the detail
  \<open>numpy present\<close>.
\<close>

theorem baseline_missing_dependency_passes:
  "(case generate_assets empty_fs (assets_dir_for Demo1) Demo1 of
      Inl e \<Rightarrow> False
    | Inr fs1 \<Rightarrow>
        check_step_truth fs1 (assets_dir_for Demo1) Demo1 (failure_step (SCENARIOS Demo1)) =
          (True, ''numpy present''))"
  by (simp add: engine_defs file_ops empty_fs_def Let_def)

theorem baseline_missing_dependency_passes_witness:
  "\<exists>fs1. generate_assets empty_fs (assets_dir_for Demo1) Demo1 = Inr fs1 \<and>
         fst (check_step_truth fs1 (assets_dir_for Demo1) Demo1 (failure_step (SCENARIOS Demo1)))"
  using baseline_missing_dependency_passes
  by (auto split: sum.splits)

section \<open>The configuration check and empty values\<close>

text \<open>
  Claim C7 says that the check of \<open>env_missing\<close> passes exactly when the three keys are
  present with non-empty values. The check tests what follows \<open>KEY=\<close> up to the end of
  the file, not up to the end of the line: a file whose \<open>DB_USER\<close> is empty passes as
  soon as anything follows the line.
\<close>

theorem empty_value_passes_env_check:
  "check_step_truth
     (empty_fs(''w'' := Dir [''.env'' \<mapsto>
        File (Text ''DB_USER=\<newline>DB_PASS=x\<newline>DB_HOST=y\<newline>'')]))
     ''w'' Demo3 10 = (True, ''env ok'') \<and>
   \<not> spec_env_ok ''DB_USER=\<newline>DB_PASS=x\<newline>DB_HOST=y\<newline>''"
  by (simp add: engine_defs file_ops Let_def spec_env_ok_def spec_key_set_def)

theorem empty_value_passes_env_check_witness:
  "fst (check_step_truth
          (empty_fs(''w'' := Dir [''.env'' \<mapsto>
             File (Text ''DB_USER=\<newline>DB_PASS=x\<newline>DB_HOST=y\<newline>'')]))
          ''w'' Demo3 10)"
  using empty_value_passes_env_check
  by simp

section \<open>The pipeline runner\<close>

text \<open>
  A run of the loop leaves the attempt count alone and logs at least one line. When the
  check of the failing stage fails, the loop stops there and records that stage and the
  detail of the check.
\<close>

lemma run_steps_frame:
  "debug_attempts (fst (run_steps fs dir k ss steps)) = debug_attempts ss \<and>
   (steps \<noteq> [] \<longrightarrow> last_run_logs (fst (run_steps fs dir k ss steps)) \<noteq> [])"
proof (induction steps arbitrary: ss)
  case Nil
  then show ?case by simp
next
  case (Cons p rest)
  obtain idx step where p: "p = (idx, step)" by (cases p)
  obtain ok detail where v: "check_step_truth fs dir k idx = (ok, detail)"
    by (cases "check_step_truth fs dir k idx")
  show ?case
  proof (cases ok)
    case False
    then show ?thesis using p v by (simp add: Let_def)
  next
    case True
    let ?s = "ss\<lparr>last_run_logs := last_run_logs ss @
                 [check_mark @ '' '' @ step @ '': OK ('' @ detail @ '')'']\<rparr>"
    obtain s2 out where r: "run_steps fs dir k ?s rest = (s2, out)"
      by (cases "run_steps fs dir k ?s rest")
    have cur: "fst (run_steps fs dir k ss (p # rest)) = s2"
      using True p v r by (simp add: Let_def)
    have a: "debug_attempts s2 = debug_attempts ss"
      using Cons.IH [of ?s] r by simp
    have b: "last_run_logs s2 \<noteq> []"
    proof (cases rest)
      case Nil
      then show ?thesis using r by auto
    next
      case (Cons q qs)
      then show ?thesis using Cons.IH [of ?s] r by simp
    qed
    show ?thesis using cur a b by simp
  qed
qed

lemma run_steps_fails:
  assumes "check_step_truth fs dir k (failure_step (SCENARIOS k)) = (False, d)"
  shows "i \<le> failure_step (SCENARIOS k) \<Longrightarrow>
         failure_step (SCENARIOS k) < i + int (length names) \<Longrightarrow>
         last_failure (fst (run_steps fs dir k ss (enumerate_from i names))) =
           Some (failure_step (SCENARIOS k), d)"
proof (induction names arbitrary: i ss)
  case Nil
  then show ?case by simp
next
  case (Cons n ns)
  show ?case
  proof (cases "i = failure_step (SCENARIOS k)")
    case True
    then show ?thesis using assms by (simp add: Let_def)
  next
    case False
    then have lt: "i < failure_step (SCENARIOS k)" using Cons.prems by simp
    have v: "check_step_truth fs dir k i = (True, ''OK'')"
      using lt by (simp add: check_step_truth_def)
    let ?s = "ss\<lparr>last_run_logs := last_run_logs ss @
                 [check_mark @ '' '' @ n @ '': OK ('' @ ''OK'' @ '')'']\<rparr>"
    obtain s2 out where r: "run_steps fs dir k ?s (enumerate_from (i + 1) ns) = (s2, out)"
      by (cases "run_steps fs dir k ?s (enumerate_from (i + 1) ns)")
    have cur: "fst (run_steps fs dir k ss (enumerate_from i (n # ns))) = s2"
      using v r by (simp add: Let_def)
    have "last_failure s2 = Some (failure_step (SCENARIOS k), d)"
      using Cons.IH [of "i + 1" ?s] lt Cons.prems r by simp
    then show ?thesis using cur by simp
  qed
qed

lemma failure_step_range: "1 \<le> failure_step (SCENARIOS k) \<and> failure_step (SCENARIOS k) \<le> 20"
  by (cases k) simp_all

lemma run_pipeline_attempts:
  "debug_attempts (fst (run_pipeline fs ss dir k)) = debug_attempts ss"
proof -
  let ?s = "ss\<lparr>running := True, last_run_logs := [], pipeline_completed := False,
                last_failure := None\<rparr>"
  obtain s2 out where r: "run_steps fs dir k ?s (enumerate_from 1 STEPS) = (s2, out)"
    by (cases "run_steps fs dir k ?s (enumerate_from 1 STEPS)")
  have "debug_attempts s2 = debug_attempts ss"
    using run_steps_frame [of fs dir k ?s "enumerate_from 1 STEPS"] r by simp
  then show ?thesis using r by (simp add: run_pipeline_def Let_def)
qed

lemma run_pipeline_logs:
  "last_run_logs (fst (run_pipeline fs ss dir k)) \<noteq> []"
proof -
  let ?s = "ss\<lparr>running := True, last_run_logs := [], pipeline_completed := False,
                last_failure := None\<rparr>"
  obtain s2 out where r: "run_steps fs dir k ?s (enumerate_from 1 STEPS) = (s2, out)"
    by (cases "run_steps fs dir k ?s (enumerate_from 1 STEPS)")
  have "enumerate_from 1 STEPS \<noteq> []" by (simp add: STEPS_def)
  then have "last_run_logs s2 \<noteq> []"
    using run_steps_frame [of fs dir k ?s "enumerate_from 1 STEPS"] r by simp
  then show ?thesis using r by (simp add: run_pipeline_def Let_def)
qed

lemma run_pipeline_fails:
  assumes "check_step_truth fs dir k (failure_step (SCENARIOS k)) = (False, d)"
  shows "last_failure (fst (run_pipeline fs ss dir k)) = Some (failure_step (SCENARIOS k), d)"
proof -
  let ?s = "ss\<lparr>running := True, last_run_logs := [], pipeline_completed := False,
                last_failure := None\<rparr>"
  obtain s2 out where r: "run_steps fs dir k ?s (enumerate_from 1 STEPS) = (s2, out)"
    by (cases "run_steps fs dir k ?s (enumerate_from 1 STEPS)")
  have len: "length STEPS = 20" by (simp add: STEPS_def)
  have "last_failure s2 = Some (failure_step (SCENARIOS k), d)"
    using run_steps_fails [OF assms, of 1 STEPS ?s] failure_step_range [of k] len r by simp
  then show ?thesis using r by (simp add: run_pipeline_def Let_def)
qed

section \<open>What generation and mitigation leave\<close>

lemma generate_assets_baseline:
  "fs dir \<noteq> NonDir \<Longrightarrow> generate_assets fs dir k = Inr (fs(dir := Dir (baseline k)))"
  by (cases k; cases "fs dir")
     (simp_all add: generate_assets_def baseline_def file_ops)

lemma assets_dir_demo2_demo3: "assets_dir_for Demo2 \<noteq> assets_dir_for Demo3"
  by (simp add: assets_dir_for_def path_join_def py_replace_def middot_def)

lemma check_baseline_demo2:
  "fs dir = Dir (baseline Demo2) \<Longrightarrow>
   check_step_truth fs dir Demo2 (failure_step (SCENARIOS Demo2)) = (False, ''Invalid COPY directive'')"
  by (simp add: check_step_truth_def check_body_def file_ops baseline_def)

lemma check_baseline_demo3:
  "fs dir = Dir (baseline Demo3) \<Longrightarrow>
   check_step_truth fs dir Demo3 (failure_step (SCENARIOS Demo3)) = (False, ''env keys missing'')"
  by (simp add: engine_defs file_ops baseline_def)

lemma mitigate_baseline_demo2:
  "fs dir = Dir (baseline Demo2) \<Longrightarrow>
   fst (snd (apply_mitigation fs dir Demo2)) \<and>
   fst (check_step_truth (fst (apply_mitigation fs dir Demo2)) dir Demo2
          (failure_step (SCENARIOS Demo2)))"
  by (simp add: engine_defs file_ops baseline_def)

lemma and_then_eq_Inr: "and_then m f = Inr y \<longleftrightarrow> (\<exists>x. m = Inr x \<and> f x = Inr y)"
  by (cases m) simp_all

lemma open_write_frame: "open_write fs dir name c = Inr m \<Longrightarrow> \<exists>b. m = fs(dir := Dir b)"
  by (auto simp: open_write_def split: node.splits option.splits entry.splits)

lemma write_file_frame: "write_file fs dir name c = Inr m \<Longrightarrow> \<exists>b. m = fs(dir := Dir b)"
  by (auto simp: write_file_def makedirs_def open_write_def and_then_eq_Inr
           split: node.splits option.splits entry.splits)

lemma open_append_frame: "open_append fs dir name t = Inr m \<Longrightarrow> \<exists>b. m = fs(dir := Dir b)"
  by (auto simp: open_append_def split: node.splits option.splits entry.splits content.splits)

lemma to_csv_frame: "to_csv fs dir name df = Inr m \<Longrightarrow> \<exists>b. m = fs(dir := Dir b)"
  by (auto simp: to_csv_def dest: open_write_frame split: node.splits)

lemma mitigation_body_frame:
  "mitigation_body fs dir k = Inr m \<Longrightarrow> \<exists>b. m = fs(dir := Dir b)"
  by (cases k)
     (auto simp: mitigation_body_def and_then_eq_Inr Let_def
           dest: write_file_frame open_append_frame to_csv_frame)

lemma apply_mitigation_frame:
  "apply_mitigation fs dir k = (m, True, msg) \<Longrightarrow> \<exists>b. m = fs(dir := Dir b)"
  by (auto simp: apply_mitigation_def dest: mitigation_body_frame split: sum.splits)

section \<open>Runs of the script\<close>

lemma script_run_fails:
  assumes gen: "generate_assets fs (assets_dir_for k) k = Inr g"
    and chk: "check_step_truth g (assets_dir_for k) k (failure_step (SCENARIOS k)) = (False, d)"
  shows "\<exists>ss' out. script c k True False (fs, ss) = Inr (g, ss', out) \<and>
           debug_attempts ss' = debug_attempts ss \<and>
           last_failure ss' = Some (failure_step (SCENARIOS k), d) \<and>
           last_run_logs ss' \<noteq> []"
proof -
  let ?s = "ss\<lparr>cloud := c, demo_key := Some k, assets_dir := Some (assets_dir_for k)\<rparr>"
  let ?R = "run_pipeline g ?s (assets_dir_for k) k"
  have "script c k True False (fs, ss) = Inr (g, fst ?R, snd ?R)"
    using gen by (simp add: script_def Let_def case_prod_beta)
  moreover have "debug_attempts (fst ?R) = debug_attempts ss"
    by (simp add: run_pipeline_attempts)
  moreover have "last_failure (fst ?R) = Some (failure_step (SCENARIOS k), d)"
    by (rule run_pipeline_fails [OF chk])
  moreover have "last_run_logs (fst ?R) \<noteq> []"
    by (rule run_pipeline_logs)
  ultimately show ?thesis by blast
qed

lemma script_fix_then_run_fails:
  assumes "last_failure ss \<noteq> None" and "debug_attempts ss < 2"
    and mit: "apply_mitigation fs (assets_dir_for k) k = (m, True, msg)"
    and gen: "generate_assets m (assets_dir_for k) k = Inr g"
    and chk: "check_step_truth g (assets_dir_for k) k (failure_step (SCENARIOS k)) = (False, d)"
  shows "\<exists>ss' out. script c k False True (fs, ss) = Inr (g, ss', out) \<and>
           debug_attempts ss' = debug_attempts ss + 1 \<and>
           last_failure ss' = Some (failure_step (SCENARIOS k), d) \<and>
           last_run_logs ss' \<noteq> []"
proof -
  let ?s = "ss\<lparr>cloud := c, demo_key := Some k, assets_dir := Some (assets_dir_for k),
               debug_attempts := debug_attempts ss + 1\<rparr>"
  let ?R = "run_pipeline g ?s (assets_dir_for k) k"
  have nf: "(last_failure ss = None) = False" using assms(1) by simp
  have na: "(2 \<le> debug_attempts ss) = False" using assms(2) by simp
  have "\<exists>out. script c k False True (fs, ss) = Inr (g, fst ?R, out)"
    using mit gen by (simp add: script_def fix_handler_def Let_def case_prod_beta nf na)
  moreover have "debug_attempts (fst ?R) = debug_attempts ss + 1"
    by (simp add: run_pipeline_attempts)
  moreover have "last_failure (fst ?R) = Some (failure_step (SCENARIOS k), d)"
    by (rule run_pipeline_fails [OF chk])
  moreover have "last_run_logs (fst ?R) \<noteq> []"
    by (rule run_pipeline_logs)
  ultimately show ?thesis by blast
qed

lemma script_select_only:
  assumes "last_run_logs ss \<noteq> []" and "fs (assets_dir_for k) = Absent"
    and gen: "generate_assets fs (assets_dir_for k) k = Inr g"
  shows "script c k False False (fs, ss) =
           Inr (g, ss\<lparr>cloud := c, demo_key := Some k, assets_dir := Some (assets_dir_for k)\<rparr>, [])"
  using assms by (simp add: script_def Let_def path_exists_def)

lemma script_fix_refused:
  assumes "last_failure ss \<noteq> None" and "2 \<le> debug_attempts ss"
    and "last_run_logs ss \<noteq> []" and "fs (assets_dir_for k) = Dir b"
  shows "script c k False True (fs, ss) =
           Inr (fs, ss\<lparr>cloud := c, demo_key := Some k, assets_dir := Some (assets_dir_for k)\<rparr>,
                [st_error ''Debug attempts exhausted (max 2). Reset by choosing another demo.''])"
proof -
  have nf: "(last_failure ss = None) = False" using assms(1) by simp
  show ?thesis
    using assms(2,3,4) by (simp add: script_def fix_handler_def Let_def path_exists_def nf)
qed

section \<open>A fix and the run that follows it\<close>

text \<open>
  Claim C1 says that a run reuses the existing snapshot, so that after a successful fix
  the repaired artifacts are the ones checked and the failing stage passes. In the source
  the condition that regenerates the assets holds whenever \<open>run_btn\<close> is set, and the
  handler of the fix button sets \<open>run_btn\<close> after a successful mitigation. Below, the
  Dockerfile scenario is run from a fresh session and fails at stage 6; the mitigation
  would make the check of stage 6 pass; the click on the fix button counts one attempt,
  leaves the file system as it was before the fix, and the run it starts fails at stage 6
  again.
\<close>

theorem fix_is_wiped_before_rerun:
  "(case script AWS Demo2 True False (empty_fs, init_state) of
      Inl e \<Rightarrow> False
    | Inr (fs1, ss1, out1) \<Rightarrow>
        last_failure ss1 = Some (6, ''Invalid COPY directive'') \<and>
        fst (check_step_truth (fst (apply_mitigation fs1 (assets_dir_for Demo2) Demo2))
               (assets_dir_for Demo2) Demo2 6) \<and>
        (case script AWS Demo2 False True (fs1, ss1) of
           Inl e \<Rightarrow> False
         | Inr (fs2, ss2, out2) \<Rightarrow>
             debug_attempts ss2 = 1 \<and>
             fs2 = fs1 \<and>
             last_failure ss2 = Some (6, ''Invalid COPY directive'')))"
proof -
  let ?d = "assets_dir_for Demo2"
  let ?G = "empty_fs(?d := Dir (baseline Demo2))"
  have gen0: "generate_assets empty_fs ?d Demo2 = Inr ?G"
    by (simp add: generate_assets_baseline empty_fs_def)
  have chk: "check_step_truth ?G ?d Demo2 (failure_step (SCENARIOS Demo2)) =
               (False, ''Invalid COPY directive'')"
    using check_baseline_demo2 [of ?G ?d] by simp
  obtain ss1 out1 where r1: "script AWS Demo2 True False (empty_fs, init_state) = Inr (?G, ss1, out1)"
    and a1: "debug_attempts ss1 = debug_attempts init_state"
    and f1: "last_failure ss1 = Some (failure_step (SCENARIOS Demo2), ''Invalid COPY directive'')"
    using script_run_fails [OF gen0 chk, of AWS init_state] by blast
  obtain m ok msg where mit: "apply_mitigation ?G ?d Demo2 = (m, ok, msg)"
    by (cases "apply_mitigation ?G ?d Demo2")
  have fixed: "ok \<and> fst (check_step_truth m ?d Demo2 (failure_step (SCENARIOS Demo2)))"
    using mitigate_baseline_demo2 [of ?G ?d] mit by simp
  then have mit': "apply_mitigation ?G ?d Demo2 = (m, True, msg)"
    using mit by simp
  obtain b where mb: "m = ?G(?d := Dir b)"
    using apply_mitigation_frame [OF mit'] by blast
  have gen1: "generate_assets m ?d Demo2 = Inr ?G"
    using mb by (simp add: generate_assets_baseline)
  have nf: "last_failure ss1 \<noteq> None" using f1 by simp
  have lt: "debug_attempts ss1 < 2" using a1 by (simp add: init_state_def)
  obtain ss2 out2 where r2: "script AWS Demo2 False True (?G, ss1) = Inr (?G, ss2, out2)"
    and a2: "debug_attempts ss2 = debug_attempts ss1 + 1"
    and f2: "last_failure ss2 = Some (failure_step (SCENARIOS Demo2), ''Invalid COPY directive'')"
    using script_fix_then_run_fails [OF nf lt mit' gen1 chk, of AWS] by blast
  show ?thesis
    using r1 f1 mit fixed r2 a2 a1 f2 by (simp add: init_state_def)
qed

theorem fix_is_wiped_before_rerun_witness:
  "\<exists>fs1 ss1 out1 ss2 out2.
     script AWS Demo2 True False (empty_fs, init_state) = Inr (fs1, ss1, out1) \<and>
     last_failure ss1 = Some (6, ''Invalid COPY directive'') \<and>
     script AWS Demo2 False True (fs1, ss1) = Inr (fs1, ss2, out2) \<and>
     debug_attempts ss2 = 1 \<and>
     last_failure ss2 = Some (6, ''Invalid COPY directive'')"
  using fix_is_wiped_before_rerun
  by (auto split: sum.splits prod.splits)

section \<open>Selecting another scenario\<close>

text \<open>
  Claim C4 says that selecting a different scenario resets the attempt count to 0 and
  regenerates the snapshot. The source regenerates, but no statement of it ever lowers
  \<open>debug_attempts\<close>, although its own messages say "Reset by choosing another demo" and
  "Switch demo to reset attempts". Below, two fixes are used on the Dockerfile scenario;
  the user then selects the scenario with the missing credentials: the attempt count is
  still 2, the run of the new scenario fails at stage 10, and the click on the fix button
  is refused as exhausted and changes nothing.
\<close>

theorem reselection_keeps_attempts:
  "(case script AWS Demo2 True False (empty_fs, init_state) of
      Inl e \<Rightarrow> False
    | Inr (fs1, ss1, out1) \<Rightarrow>
        (case script AWS Demo2 False True (fs1, ss1) of
           Inl e \<Rightarrow> False
         | Inr (fs2, ss2, out2) \<Rightarrow>
             (case script AWS Demo2 False True (fs2, ss2) of
                Inl e \<Rightarrow> False
              | Inr (fs3, ss3, out3) \<Rightarrow>
                  debug_attempts ss3 = 2 \<and>
                  (case script AWS Demo3 False False (fs3, ss3) of
                     Inl e \<Rightarrow> False
                   | Inr (fs4, ss4, out4) \<Rightarrow>
                       demo_key ss4 = Some Demo3 \<and>
                       debug_attempts ss4 = 2 \<and>
                       (case script AWS Demo3 True False (fs4, ss4) of
                          Inl e \<Rightarrow> False
                        | Inr (fs5, ss5, out5) \<Rightarrow>
                            last_failure ss5 = Some (10, ''env keys missing'') \<and>
                            debug_attempts ss5 = 2 \<and>
                            (case script AWS Demo3 False True (fs5, ss5) of
                               Inl e \<Rightarrow> False
                             | Inr (fs6, ss6, out6) \<Rightarrow>
                                 out6 = [st_error
                                   ''Debug attempts exhausted (max 2). Reset by choosing another demo.''] \<and>
                                 fs6 = fs5 \<and> debug_attempts ss6 = 2))))))"
proof -
  let ?d2 = "assets_dir_for Demo2"
  let ?d3 = "assets_dir_for Demo3"
  let ?G = "empty_fs(?d2 := Dir (baseline Demo2))"
  let ?H = "?G(?d3 := Dir (baseline Demo3))"
  have gen0: "generate_assets empty_fs ?d2 Demo2 = Inr ?G"
    by (simp add: generate_assets_baseline empty_fs_def)
  have chk2: "check_step_truth ?G ?d2 Demo2 (failure_step (SCENARIOS Demo2)) =
               (False, ''Invalid COPY directive'')"
    using check_baseline_demo2 [of ?G ?d2] by simp
  obtain ss1 out1 where r1: "script AWS Demo2 True False (empty_fs, init_state) = Inr (?G, ss1, out1)"
    and a1: "debug_attempts ss1 = debug_attempts init_state"
    and f1: "last_failure ss1 = Some (failure_step (SCENARIOS Demo2), ''Invalid COPY directive'')"
    using script_run_fails [OF gen0 chk2, of AWS init_state] by blast
  obtain m ok msg where mit: "apply_mitigation ?G ?d2 Demo2 = (m, ok, msg)"
    by (cases "apply_mitigation ?G ?d2 Demo2")
  have "ok" using mitigate_baseline_demo2 [of ?G ?d2] mit by simp
  then have mit': "apply_mitigation ?G ?d2 Demo2 = (m, True, msg)"
    using mit by simp
  obtain b where mb: "m = ?G(?d2 := Dir b)"
    using apply_mitigation_frame [OF mit'] by blast
  have gen1: "generate_assets m ?d2 Demo2 = Inr ?G"
    using mb by (simp add: generate_assets_baseline)
  have nf1: "last_failure ss1 \<noteq> None" using f1 by simp
  have lt1: "debug_attempts ss1 < 2" using a1 by (simp add: init_state_def)
  obtain ss2 out2 where r2: "script AWS Demo2 False True (?G, ss1) = Inr (?G, ss2, out2)"
    and a2: "debug_attempts ss2 = debug_attempts ss1 + 1"
    and f2: "last_failure ss2 = Some (failure_step (SCENARIOS Demo2), ''Invalid COPY directive'')"
    using script_fix_then_run_fails [OF nf1 lt1 mit' gen1 chk2, of AWS] by blast
  have nf2: "last_failure ss2 \<noteq> None" using f2 by simp
  have lt2: "debug_attempts ss2 < 2" using a2 a1 by (simp add: init_state_def)
  obtain ss3 out3 where r3: "script AWS Demo2 False True (?G, ss2) = Inr (?G, ss3, out3)"
    and a3: "debug_attempts ss3 = debug_attempts ss2 + 1"
    and f3: "last_failure ss3 = Some (failure_step (SCENARIOS Demo2), ''Invalid COPY directive'')"
    and l3: "last_run_logs ss3 \<noteq> []"
    using script_fix_then_run_fails [OF nf2 lt2 mit' gen1 chk2, of AWS] by blast
  have two: "debug_attempts ss3 = 2" using a3 a2 a1 by (simp add: init_state_def)
  have absent: "?G ?d3 = Absent"
    using assets_dir_demo2_demo3 by (simp add: empty_fs_def)
  have gen3: "generate_assets ?G ?d3 Demo3 = Inr ?H"
    using absent by (simp add: generate_assets_baseline)
  let ?s4 = "ss3\<lparr>cloud := AWS, demo_key := Some Demo3, assets_dir := Some ?d3\<rparr>"
  have r4: "script AWS Demo3 False False (?G, ss3) = Inr (?H, ?s4, [])"
    by (rule script_select_only [OF l3 absent gen3])
  have gen4: "generate_assets ?H ?d3 Demo3 = Inr ?H"
    by (simp add: generate_assets_baseline)
  have chk3: "check_step_truth ?H ?d3 Demo3 (failure_step (SCENARIOS Demo3)) =
               (False, ''env keys missing'')"
    using check_baseline_demo3 [of ?H ?d3] by simp
  obtain ss5 out5 where r5: "script AWS Demo3 True False (?H, ?s4) = Inr (?H, ss5, out5)"
    and a5: "debug_attempts ss5 = debug_attempts ?s4"
    and f5: "last_failure ss5 = Some (failure_step (SCENARIOS Demo3), ''env keys missing'')"
    and l5: "last_run_logs ss5 \<noteq> []"
    using script_run_fails [OF gen4 chk3, of AWS ?s4] by blast
  have nf5: "last_failure ss5 \<noteq> None" using f5 by simp
  have ge5: "2 \<le> debug_attempts ss5" using a5 two by simp
  have hd: "?H ?d3 = Dir (baseline Demo3)" by simp
  have r6: "script AWS Demo3 False True (?H, ss5) =
              Inr (?H, ss5\<lparr>cloud := AWS, demo_key := Some Demo3, assets_dir := Some ?d3\<rparr>,
                   [st_error ''Debug attempts exhausted (max 2). Reset by choosing another demo.''])"
    using nf5 ge5 l5 hd
      script_fix_refused [where ss = ss5 and fs = "?H" and k = Demo3 and b = "baseline Demo3"
                            and c = AWS]
    by simp
  show ?thesis
    using r1 r2 r3 two r4 r5 a5 f5 r6 by simp
qed

theorem reselection_keeps_attempts_witness:
  "\<exists>fs1 ss1 out1 fs2 ss2 out2 fs3 ss3 out3 fs4 ss4 out4.
     script AWS Demo2 True False (empty_fs, init_state) = Inr (fs1, ss1, out1) \<and>
     script AWS Demo2 False True (fs1, ss1) = Inr (fs2, ss2, out2) \<and>
     script AWS Demo2 False True (fs2, ss2) = Inr (fs3, ss3, out3) \<and>
     debug_attempts ss3 = 2 \<and>
     script AWS Demo3 False False (fs3, ss3) = Inr (fs4, ss4, out4) \<and>
     demo_key ss4 = Some Demo3 \<and>
     debug_attempts ss4 = 2"
  using reselection_keeps_attempts
  by (auto split: sum.splits prod.splits)

end
